theory Spec2Isabelle
  imports Main
begin

section \<open>Strings, numbers and paths as the JavaScript code uses them\<close>

text \<open>
  Strings are lists of 8-bit characters. A JavaScript number that holds an integer is
  rendered by a template literal in decimal, with a leading minus sign when negative.
\<close>

type_synonym path = string

definition digit_char :: "nat \<Rightarrow> char" where
  "digit_char d = ''0123456789'' ! d"

fun string_of_nat :: "nat \<Rightarrow> string" where
  "string_of_nat n =
     (if n < 10 then [digit_char n] else string_of_nat (n div 10) @ [digit_char (n mod 10)])"

declare string_of_nat.simps [simp del]

definition string_of_int :: "int \<Rightarrow> string" where
  "string_of_int i = (if i < 0 then CHR ''-'' # string_of_nat (nat (- i)) else string_of_nat (nat i))"

text \<open>\<^verbatim>\<open>`${videoId}`\<close>: a string is itself, \<^verbatim>\<open>null\<close> is rendered as the four letters.\<close>

definition template_of_id :: "string option \<Rightarrow> string" where
  "template_of_id v = (case v of None \<Rightarrow> ''null'' | Some s \<Rightarrow> s)"

text \<open>
  \<^verbatim>\<open>path.join(dir, name)\<close> for a normalised directory without trailing separator and a
  single non-empty segment that is neither \<^verbatim>\<open>.\<close> nor \<^verbatim>\<open>..\<close>: the two joined by a slash.
  Every call of the services has this shape (the names end in a fixed suffix and the
  identifier never contains a slash).
\<close>

definition path_join :: "path \<Rightarrow> string \<Rightarrow> path" where
  "path_join dir name = dir @ ''/'' @ name"

definition path_basename :: "path \<Rightarrow> string" where
  "path_basename p = rev (takeWhile (\<lambda>c. c \<noteq> CHR ''/'') (rev p))"

definition path_dirname :: "path \<Rightarrow> path" where
  "path_dirname p =
     (if CHR ''/'' \<notin> set p then ''.''
      else let d = rev (drop 1 (dropWhile (\<lambda>c. c \<noteq> CHR ''/'') (rev p)))
           in if d = [] then ''/'' else d)"

text \<open>\<^verbatim>\<open>parts.join(',')\<close>\<close>

fun join_with :: "string \<Rightarrow> string list \<Rightarrow> string" where
  "join_with sep [] = []"
| "join_with sep [x] = x"
| "join_with sep (x # y # ys) = x @ sep @ join_with sep (y # ys)"


section \<open>Regular expressions of the URL checks\<close>

text \<open>
  The fragment of JavaScript regular expressions that \<^verbatim>\<open>youtubeService.js\<close> uses: literals,
  optional groups, alternation, sequence, greedy \<^verbatim>\<open>+\<close> and \<^verbatim>\<open>*\<close> over a character class,
  and one capturing group. \<open>rx_match r s\<close> lists, in backtracking priority order, every
  way \<open>r\<close> can match a prefix of \<open>s\<close>: the text of the capturing group (if it took part)
  and the rest of \<open>s\<close> after the match.
\<close>

datatype rx =
    Lit string
  | Opt rx
  | Alt rx rx
  | Seq rx rx
  | Plus "char \<Rightarrow> bool"
  | Star "char \<Rightarrow> bool"
  | Cap rx

fun star_rests :: "(char \<Rightarrow> bool) \<Rightarrow> string \<Rightarrow> string list" where
  "star_rests c [] = [[]]"
| "star_rests c (x # xs) = (if c x then star_rests c xs @ [x # xs] else [x # xs])"

definition strip_prefix :: "string \<Rightarrow> string \<Rightarrow> string option" where
  "strip_prefix l s = (if take (length l) s = l then Some (drop (length l) s) else None)"

fun rx_match :: "rx \<Rightarrow> string \<Rightarrow> (string option \<times> string) list" where
  "rx_match (Lit l) s = (case strip_prefix l s of None \<Rightarrow> [] | Some t \<Rightarrow> [(None, t)])"
| "rx_match (Opt r) s = rx_match r s @ [(None, s)]"
| "rx_match (Alt a b) s = rx_match a s @ rx_match b s"
| "rx_match (Seq a b) s =
     concat (map (\<lambda>(c1, s1). map (\<lambda>(c2, s2). (case c2 of None \<Rightarrow> c1 | Some g \<Rightarrow> Some g, s2))
                                   (rx_match b s1))
                 (rx_match a s))"
| "rx_match (Plus c) s = (case s of [] \<Rightarrow> [] | x # xs \<Rightarrow> if c x then map (Pair None) (star_rests c xs) else [])"
| "rx_match (Star c) s = map (Pair None) (star_rests c s)"
| "rx_match (Cap r) s = map (\<lambda>(g, t). (Some (take (length s - length t) s), t)) (rx_match r s)"

text \<open>\<^verbatim>\<open>/^r/.test(s)\<close>: an anchored pattern matches when some prefix of \<open>s\<close> does.\<close>

definition rx_test_anchored :: "rx \<Rightarrow> string \<Rightarrow> bool" where
  "rx_test_anchored r s = (rx_match r s \<noteq> [])"

text \<open>
  \<^verbatim>\<open>s.match(/r/)\<close> for an unanchored pattern without the global flag: the leftmost start
  position at which \<open>r\<close> matches, and there the match of highest priority; the result is
  the content of group 1 (\<open>Some None\<close> when the group did not take part), or \<open>None\<close>
  when the pattern matches nowhere.
\<close>

fun rx_exec_group1 :: "rx \<Rightarrow> string \<Rightarrow> string option option" where
  "rx_exec_group1 r [] = (case rx_match r [] of [] \<Rightarrow> None | (g, t) # rest \<Rightarrow> Some g)"
| "rx_exec_group1 r (x # xs) =
     (case rx_match r (x # xs) of [] \<Rightarrow> rx_exec_group1 r xs | (g, t) # rest \<Rightarrow> Some g)"

text \<open>Character classes: \<^verbatim>\<open>[\w-]\<close>, \<^verbatim>\<open>.\<close> (anything but a line terminator), \<^verbatim>\<open>[^&\?\/]\<close>.\<close>

definition is_word_char :: "char \<Rightarrow> bool" where
  "is_word_char c =
     (let n = (of_char c :: nat)
      in (48 \<le> n \<and> n \<le> 57) \<or> (65 \<le> n \<and> n \<le> 90) \<or> (97 \<le> n \<and> n \<le> 122) \<or> n = 95)"

definition word_or_dash :: "char \<Rightarrow> bool" where
  "word_or_dash c = (is_word_char c \<or> c = CHR ''-'')"

definition any_char :: "char \<Rightarrow> bool" where
  "any_char c = (c \<noteq> CHR 0x0A \<and> c \<noteq> CHR 0x0D)"

definition not_amp_q_slash :: "char \<Rightarrow> bool" where
  "not_amp_q_slash c = (c \<noteq> CHR ''&'' \<and> c \<noteq> CHR ''?'' \<and> c \<noteq> CHR ''/'')"


section \<open>YouTubeService: URL validation and identifier extraction\<close>

text \<open>\<^verbatim>\<open>(https?:\/\/)?(www\.)?\<close>, the common head of both validation patterns.\<close>

definition rx_scheme_www :: rx where
  "rx_scheme_www =
     Seq (Opt (Seq (Lit ''http'') (Seq (Opt (Lit ''s'')) (Lit ''://'')))) (Opt (Lit ''www.''))"

text \<open>\<^verbatim>\<open>/^(https?:\/\/)?(www\.)?(youtube\.com\/watch\?v=|youtu\.be\/)[\w-]+/\<close>\<close>

definition valid_pattern1 :: rx where
  "valid_pattern1 =
     Seq rx_scheme_www
       (Seq (Alt (Lit ''youtube.com/watch?v='') (Lit ''youtu.be/'')) (Plus word_or_dash))"

text \<open>\<^verbatim>\<open>/^(https?:\/\/)?(www\.)?youtube\.com\/watch\?.*v=[\w-]+/\<close>\<close>

definition valid_pattern2 :: rx where
  "valid_pattern2 =
     Seq rx_scheme_www
       (Seq (Lit ''youtube.com/watch?'') (Seq (Star any_char) (Seq (Lit ''v='') (Plus word_or_dash))))"

definition isValidYouTubeUrl :: "string \<Rightarrow> bool" where
  "isValidYouTubeUrl url = list_ex (\<lambda>pattern. rx_test_anchored pattern url) [valid_pattern1, valid_pattern2]"

text \<open>\<^verbatim>\<open>/(?:youtube\.com\/watch\?v=|youtu\.be\/)([^&\?\/]+)/\<close>\<close>

definition id_pattern1 :: rx where
  "id_pattern1 =
     Seq (Alt (Lit ''youtube.com/watch?v='') (Lit ''youtu.be/'')) (Cap (Plus not_amp_q_slash))"

text \<open>\<^verbatim>\<open>/youtube\.com\/embed\/([^&\?\/]+)/\<close>\<close>

definition id_pattern2 :: rx where
  "id_pattern2 = Seq (Lit ''youtube.com/embed/'') (Cap (Plus not_amp_q_slash))"

text \<open>
  The loop over the patterns returns the first non-empty group 1; \<open>None\<close> is
  JavaScript's \<^verbatim>\<open>null\<close>.
\<close>

fun extractVideoId_loop :: "rx list \<Rightarrow> string \<Rightarrow> string option" where
  "extractVideoId_loop [] url = None"
| "extractVideoId_loop (pattern # patterns) url =
     (case rx_exec_group1 pattern url of
        Some (Some g) \<Rightarrow> if g \<noteq> [] then Some g else extractVideoId_loop patterns url
      | _ \<Rightarrow> extractVideoId_loop patterns url)"

definition extractVideoId :: "string \<Rightarrow> string option" where
  "extractVideoId url = extractVideoId_loop [id_pattern1, id_pattern2] url"


section \<open>Configuration (config.js)\<close>

record audio_config =
  sampleRate :: nat
  channels :: nat
  highPassFilter :: int
  lowPassFilter :: int
  silenceThreshold :: int

text \<open>
  The two directories are resolved from the location of the installed module, so they are
  parameters; the audio settings are the literals of \<^verbatim>\<open>config.js\<close>. Only the settings
  that the services read are kept (the port and the download defaults are not used by them).
\<close>

record config =
  tempDir :: path
  outputDir :: path
  audio :: audio_config

definition default_audio :: audio_config where
  "default_audio =
     \<lparr>sampleRate = 44100, channels = 1, highPassFilter = 80, lowPassFilter = 8000,
      silenceThreshold = - 30\<rparr>"


section \<open>The external collaborators and the effects of a run\<close>

text \<open>A thrown or rejected \<^verbatim>\<open>Error\<close>, with its \<^verbatim>\<open>message\<close>.\<close>

datatype js_error = JsError (message: string)

text \<open>\<^verbatim>\<open>a || b\<close> on strings: the empty string is falsy.\<close>

definition js_or :: "string \<Rightarrow> string \<Rightarrow> string" where
  "js_or a b = (if a = [] then b else a)"

text \<open>A JSON value that the services only pass through, kept as its text.\<close>

type_synonym json = string

text \<open>The flags of one \<^verbatim>\<open>youtubedl(videoUrl, flags)\<close> call.\<close>

record ytdl_flags =
  dumpSingleJson :: bool
  extractAudio :: bool
  audioFormat :: "string option"
  audioQuality :: "nat option"
  ytdl_output :: "path option"
  noCheckCertificates :: bool
  noWarnings :: bool
  preferFreeFormats :: bool
  format :: "string option"

text \<open>The fields of the dumped video description that \<^verbatim>\<open>downloadAudio\<close> reads.\<close>

record video_info =
  info_title :: "json option"
  info_duration :: "json option"
  info_uploader :: "json option"
  info_upload_date :: "json option"
  info_description :: "json option"

text \<open>One \<^verbatim>\<open>fluent-ffmpeg\<close> command, as built by the chained setters before \<^verbatim>\<open>run()\<close>.\<close>

record ffmpeg_cmd =
  cmd_input :: path
  noVideo :: bool
  audioFilters :: "string option"
  audioCodec :: "string option"
  audioFrequency :: "nat option"
  audioChannels :: "nat option"
  audioBitrate :: "string option"
  cmd_output :: path

record probe_stream =
  codec_type :: string
  sample_rate :: "json option"
  stream_channels :: "json option"
  codec_name :: "json option"

record probe_format =
  format_duration :: "json option"
  bit_rate :: "json option"

record probe_data =
  streams :: "probe_stream list"
  probe_fmt :: probe_format

text \<open>
  The collaborators act on a world \<open>'w\<close> (file system, network, clock) that the services
  never see directly. Each call takes the world and returns its outcome and the next world,
  so an outcome may depend on everything that happened before.
  \<^item> \<open>fs_mkdir\<close>, \<open>fs_unlink\<close>, \<open>youtubedl\<close>: \<open>Some err\<close> / \<open>Inl err\<close> is a rejected promise;
  \<^item> \<open>ffmpeg_run\<close>: \<open>None\<close> is the \<^verbatim>\<open>end\<close> event, \<open>Some msg\<close> the \<^verbatim>\<open>error\<close> event with
    \<^verbatim>\<open>err.message = msg\<close>;
  \<^item> \<open>ffprobe\<close>: \<open>Inl msg\<close> is the callback's \<^verbatim>\<open>err\<close> with that message.
\<close>

record 'w engines =
  uuidv4 :: "'w \<Rightarrow> string \<times> 'w"
  date_now :: "'w \<Rightarrow> nat \<times> 'w"
  fs_mkdir :: "path \<Rightarrow> 'w \<Rightarrow> js_error option \<times> 'w"
  fs_unlink :: "path \<Rightarrow> 'w \<Rightarrow> js_error option \<times> 'w"
  youtubedl :: "string \<Rightarrow> ytdl_flags \<Rightarrow> 'w \<Rightarrow> (js_error + video_info) \<times> 'w"
  ffmpeg_run :: "ffmpeg_cmd \<Rightarrow> 'w \<Rightarrow> string option \<times> 'w"
  ffprobe :: "path \<Rightarrow> 'w \<Rightarrow> (string + probe_data) \<times> 'w"

text \<open>The service method on whose behalf an engine runs.\<close>

datatype stage = Download | ExtractRaw | NoiseReduction | VocalEnhancement | FormatConversion

text \<open>
  Every call of a collaborator is recorded, in order, with its arguments and its outcome
  (\<open>None\<close>: no error). The two console lines of \<^verbatim>\<open>cleanupTempFiles\<close> are recorded too; the
  other console output of the services is not modelled.
\<close>

datatype event =
    Mkdir path "js_error option"
  | Youtubedl string ytdl_flags "js_error option"
  | Ffmpeg stage ffmpeg_cmd "string option"
  | Ffprobe path "string option"
  | Unlink path "js_error option"
  | ConsoleLog string
  | ConsoleWarn string string

type_synonym 'w st = "'w \<times> event list"

definition call_mkdir :: "'w engines \<Rightarrow> path \<Rightarrow> 'w st \<Rightarrow> js_error option \<times> 'w st" where
  "call_mkdir e p st =
     (case st of (w, tr) \<Rightarrow> (case fs_mkdir e p w of (r, w') \<Rightarrow> (r, (w', tr @ [Mkdir p r]))))"

definition call_unlink :: "'w engines \<Rightarrow> path \<Rightarrow> 'w st \<Rightarrow> js_error option \<times> 'w st" where
  "call_unlink e p st =
     (case st of (w, tr) \<Rightarrow> (case fs_unlink e p w of (r, w') \<Rightarrow> (r, (w', tr @ [Unlink p r]))))"

definition call_youtubedl ::
  "'w engines \<Rightarrow> string \<Rightarrow> ytdl_flags \<Rightarrow> 'w st \<Rightarrow> (js_error + video_info) \<times> 'w st" where
  "call_youtubedl e url flags st =
     (case st of (w, tr) \<Rightarrow>
        (case youtubedl e url flags w of
           (r, w') \<Rightarrow>
             (r, (w', tr @ [Youtubedl url flags (case r of Inl err \<Rightarrow> Some err | Inr v \<Rightarrow> None)]))))"

definition call_ffmpeg :: "'w engines \<Rightarrow> stage \<Rightarrow> ffmpeg_cmd \<Rightarrow> 'w st \<Rightarrow> string option \<times> 'w st" where
  "call_ffmpeg e tag cmd st =
     (case st of (w, tr) \<Rightarrow> (case ffmpeg_run e cmd w of (r, w') \<Rightarrow> (r, (w', tr @ [Ffmpeg tag cmd r]))))"

definition call_ffprobe :: "'w engines \<Rightarrow> path \<Rightarrow> 'w st \<Rightarrow> (string + probe_data) \<times> 'w st" where
  "call_ffprobe e p st =
     (case st of (w, tr) \<Rightarrow>
        (case ffprobe e p w of
           (r, w') \<Rightarrow> (r, (w', tr @ [Ffprobe p (case r of Inl msg \<Rightarrow> Some msg | Inr v \<Rightarrow> None)]))))"

definition console :: "event \<Rightarrow> 'w st \<Rightarrow> 'w st" where
  "console ev st = (case st of (w, tr) \<Rightarrow> (w, tr @ [ev]))"


section \<open>YouTubeService.downloadAudio\<close>

record source_metadata =
  title :: "json option"
  duration :: "json option"
  uploader :: "json option"
  uploadDate :: "json option"
  description :: "json option"

text \<open>
  The object every service method resolves to: \<^verbatim>\<open>{success, filePath?, error?, metadata?}\<close>;
  an absent key is \<open>None\<close>.
\<close>

record step_result =
  success :: bool
  filePath :: "path option"
  error :: "string option"
  metadata :: "source_metadata option"

definition info_flags :: ytdl_flags where
  "info_flags =
     \<lparr>dumpSingleJson = True, extractAudio = False, audioFormat = None, audioQuality = None,
      ytdl_output = None, noCheckCertificates = True, noWarnings = True,
      preferFreeFormats = True, format = None\<rparr>"

definition audio_flags :: "path \<Rightarrow> ytdl_flags" where
  "audio_flags outputPath =
     \<lparr>dumpSingleJson = False, extractAudio = True, audioFormat = Some ''wav'',
      audioQuality = Some 0, ytdl_output = Some outputPath, noCheckCertificates = True,
      noWarnings = True, preferFreeFormats = True, format = Some ''bestaudio/best''\<rparr>"

text \<open>The body of the \<^verbatim>\<open>try\<close> block: \<open>Inl err\<close> is an exception leaving it.\<close>

definition downloadAudio_try ::
  "'w engines \<Rightarrow> string \<Rightarrow> path \<Rightarrow> 'w st \<Rightarrow> (js_error + step_result) \<times> 'w st" where
  "downloadAudio_try e videoUrl outputPath st =
     (case call_mkdir e (path_dirname outputPath) st of
        (Some err, st1) \<Rightarrow> (Inl err, st1)
      | (None, st1) \<Rightarrow>
          (case call_youtubedl e videoUrl info_flags st1 of
             (Inl err, st2) \<Rightarrow> (Inl err, st2)
           | (Inr info, st2) \<Rightarrow>
               (case call_youtubedl e videoUrl (audio_flags outputPath) st2 of
                  (Inl err, st3) \<Rightarrow> (Inl err, st3)
                | (Inr result, st3) \<Rightarrow>
                    (Inr \<lparr>success = True, filePath = Some outputPath, error = None,
                          metadata = Some \<lparr>title = info_title info, duration = info_duration info,
                                            uploader = info_uploader info,
                                            uploadDate = info_upload_date info,
                                            description = info_description info\<rparr>\<rparr>,
                     st3))))"

text \<open>The whole method: the \<^verbatim>\<open>catch\<close> block turns every exception of the body into a result.\<close>

definition downloadAudio ::
  "'w engines \<Rightarrow> string \<Rightarrow> path \<Rightarrow> 'w st \<Rightarrow> (js_error + step_result) \<times> 'w st" where
  "downloadAudio e videoUrl outputPath st =
     (case downloadAudio_try e videoUrl outputPath st of
        (Inr r, st') \<Rightarrow> (Inr r, st')
      | (Inl err, st') \<Rightarrow>
          (Inr \<lparr>success = False, filePath = None,
                error = Some (js_or (message err) ''Failed to download audio from YouTube''),
                metadata = None\<rparr>,
           st'))"


section \<open>AudioProcessingService\<close>

text \<open>
  The methods that the pipeline calls: \<^verbatim>\<open>extractRawAudio\<close>, \<^verbatim>\<open>applyNoiseReduction\<close>,
  \<^verbatim>\<open>enhanceVocals\<close>, \<^verbatim>\<open>convertFormat\<close> and \<^verbatim>\<open>getAudioMetadata\<close>
  (\<^verbatim>\<open>removeSilence\<close> is not part of the pipeline).
\<close>

text \<open>
  The common tail of the ffmpeg methods: \<^verbatim>\<open>end\<close> resolves to success with the output path,
  \<^verbatim>\<open>error\<close> resolves (never rejects) to failure with the engine's message.
\<close>

definition run_command :: "'w engines \<Rightarrow> stage \<Rightarrow> ffmpeg_cmd \<Rightarrow> 'w st \<Rightarrow> step_result \<times> 'w st" where
  "run_command e tag cmd st =
     (case call_ffmpeg e tag cmd st of
        (None, st') \<Rightarrow>
          (\<lparr>success = True, filePath = Some (cmd_output cmd), error = None, metadata = None\<rparr>, st')
      | (Some msg, st') \<Rightarrow>
          (\<lparr>success = False, filePath = None, error = Some msg, metadata = None\<rparr>, st'))"

definition extractRawAudio_cmd :: "config \<Rightarrow> path \<Rightarrow> path \<Rightarrow> ffmpeg_cmd" where
  "extractRawAudio_cmd cfg inputPath outputPath =
     \<lparr>cmd_input = inputPath, noVideo = True, audioFilters = None, audioCodec = Some ''pcm_s16le'',
      audioFrequency = Some (sampleRate (audio cfg)), audioChannels = Some (channels (audio cfg)),
      audioBitrate = None, cmd_output = outputPath\<rparr>"

definition extractRawAudio :: "'w engines \<Rightarrow> config \<Rightarrow> path \<Rightarrow> path \<Rightarrow> 'w st \<Rightarrow> step_result \<times> 'w st" where
  "extractRawAudio e cfg inputPath outputPath st =
     run_command e ExtractRaw (extractRawAudio_cmd cfg inputPath outputPath) st"

text \<open>The array of filter strings of \<^verbatim>\<open>applyNoiseReduction\<close>, before \<^verbatim>\<open>join(',')\<close>.\<close>

definition compand_filter :: string where
  "compand_filter =
     ''compand=attacks=0.3:decays=0.8:points=-80/-80|-45/-15|-27/-9|0/-7|20/-7:soft-knee=6:gain=0:volume=-90:delay=0.2''"

definition noiseReduction_parts :: "config \<Rightarrow> string list" where
  "noiseReduction_parts cfg =
     [''highpass=f='' @ string_of_int (highPassFilter (audio cfg)),
      ''lowpass=f='' @ string_of_int (lowPassFilter (audio cfg)),
      ''afftdn=nf=-25'',
      compand_filter]"

definition noiseReduction_filters :: "config \<Rightarrow> string" where
  "noiseReduction_filters cfg = join_with '','' (noiseReduction_parts cfg)"

definition applyNoiseReduction_cmd :: "config \<Rightarrow> path \<Rightarrow> path \<Rightarrow> ffmpeg_cmd" where
  "applyNoiseReduction_cmd cfg inputPath outputPath =
     \<lparr>cmd_input = inputPath, noVideo = False, audioFilters = Some (noiseReduction_filters cfg),
      audioCodec = Some ''pcm_s16le'', audioFrequency = Some (sampleRate (audio cfg)),
      audioChannels = Some (channels (audio cfg)), audioBitrate = None, cmd_output = outputPath\<rparr>"

definition applyNoiseReduction ::
  "'w engines \<Rightarrow> config \<Rightarrow> path \<Rightarrow> path \<Rightarrow> 'w st \<Rightarrow> step_result \<times> 'w st" where
  "applyNoiseReduction e cfg inputPath outputPath st =
     run_command e NoiseReduction (applyNoiseReduction_cmd cfg inputPath outputPath) st"

text \<open>The array of filter strings of \<^verbatim>\<open>enhanceVocals\<close>.\<close>

definition vocal_parts :: "config \<Rightarrow> string list" where
  "vocal_parts cfg =
     [''highpass=f='' @ string_of_int (highPassFilter (audio cfg)),
      ''lowpass=f='' @ string_of_int (lowPassFilter (audio cfg)),
      ''afftdn=nf=-20'',
      ''equalizer=f=3000:width_type=h:width=1000:g=3'',
      compand_filter,
      ''loudnorm=I=-16:TP=-1.5:LRA=11'']"

definition vocalFilters :: "config \<Rightarrow> string" where
  "vocalFilters cfg = join_with '','' (vocal_parts cfg)"

definition enhanceVocals_cmd :: "config \<Rightarrow> path \<Rightarrow> path \<Rightarrow> ffmpeg_cmd" where
  "enhanceVocals_cmd cfg inputPath outputPath =
     \<lparr>cmd_input = inputPath, noVideo = False, audioFilters = Some (vocalFilters cfg),
      audioCodec = Some ''pcm_s16le'', audioFrequency = Some (sampleRate (audio cfg)),
      audioChannels = Some (channels (audio cfg)), audioBitrate = None, cmd_output = outputPath\<rparr>"

definition enhanceVocals :: "'w engines \<Rightarrow> config \<Rightarrow> path \<Rightarrow> path \<Rightarrow> 'w st \<Rightarrow> step_result \<times> 'w st" where
  "enhanceVocals e cfg inputPath outputPath st =
     run_command e VocalEnhancement (enhanceVocals_cmd cfg inputPath outputPath) st"

text \<open>\<^verbatim>\<open>convertFormat\<close>: the codec settings depend on the format; an unknown format sets none.\<close>

definition convertFormat_cmd :: "path \<Rightarrow> path \<Rightarrow> string \<Rightarrow> ffmpeg_cmd" where
  "convertFormat_cmd inputPath outputPath fmt =
     (let command = \<lparr>cmd_input = inputPath, noVideo = False, audioFilters = None, audioCodec = None,
                      audioFrequency = None, audioChannels = None, audioBitrate = None,
                      cmd_output = outputPath\<rparr>
      in if fmt = ''mp3'' then command\<lparr>audioCodec := Some ''libmp3lame'', audioBitrate := Some ''192k''\<rparr>
         else if fmt = ''wav'' then command\<lparr>audioCodec := Some ''pcm_s16le''\<rparr>
         else if fmt = ''ogg'' then command\<lparr>audioCodec := Some ''libvorbis'', audioBitrate := Some ''192k''\<rparr>
         else command)"

definition convertFormat :: "'w engines \<Rightarrow> path \<Rightarrow> path \<Rightarrow> string \<Rightarrow> 'w st \<Rightarrow> step_result \<times> 'w st" where
  "convertFormat e inputPath outputPath fmt st =
     run_command e FormatConversion (convertFormat_cmd inputPath outputPath fmt) st"

record audio_metadata =
  am_duration :: "json option"
  am_bitRate :: "json option"
  am_sampleRate :: "json option"
  am_channels :: "json option"
  am_codec :: "json option"

record metadata_result =
  probe_success :: bool
  probe_error :: "string option"
  probe_metadata :: "audio_metadata option"

text \<open>\<^verbatim>\<open>audioStream?.field\<close>: undefined when no audio stream was found.\<close>

definition opt_field :: "(probe_stream \<Rightarrow> json option) \<Rightarrow> probe_stream option \<Rightarrow> json option" where
  "opt_field f s = (case s of None \<Rightarrow> None | Some x \<Rightarrow> f x)"

definition getAudioMetadata :: "'w engines \<Rightarrow> path \<Rightarrow> 'w st \<Rightarrow> metadata_result \<times> 'w st" where
  "getAudioMetadata e probedPath st =
     (case call_ffprobe e probedPath st of
        (Inl msg, st') \<Rightarrow> (\<lparr>probe_success = False, probe_error = Some msg, probe_metadata = None\<rparr>, st')
      | (Inr m, st') \<Rightarrow>
          (let audioStream = find (\<lambda>s. codec_type s = ''audio'') (streams m)
           in (\<lparr>probe_success = True, probe_error = None,
                probe_metadata =
                  Some \<lparr>am_duration = format_duration (probe_fmt m), am_bitRate = bit_rate (probe_fmt m),
                        am_sampleRate = opt_field sample_rate audioStream,
                        am_channels = opt_field stream_channels audioStream,
                        am_codec = opt_field codec_name audioStream\<rparr>\<rparr>,
               st')))"


section \<open>AudioExtractionService: the orchestrator\<close>

text \<open>
  Assignment to a key of a JavaScript object: a present key keeps its place, a new key is
  appended, so the entries stay in insertion order.
\<close>

fun obj_set :: "(string \<times> 'a) list \<Rightarrow> string \<Rightarrow> 'a \<Rightarrow> (string \<times> 'a) list" where
  "obj_set [] k v = [(k, v)]"
| "obj_set ((k', v') # m) k v = (if k' = k then (k, v) # m else (k', v') # obj_set m k v)"

text \<open>\<^verbatim>\<open>x || null\<close> on an optional path.\<close>

definition js_or_null :: "string option \<Rightarrow> string option" where
  "js_or_null x = (case x of None \<Rightarrow> None | Some p \<Rightarrow> if p = [] then None else Some p)"

text \<open>The local \<^verbatim>\<open>results\<close> object of a job.\<close>

record results =
  res_jobId :: string
  res_videoId :: "string option"
  steps :: "(string \<times> step_result) list"
  files :: "(string \<times> path) list"
  res_metadata :: "source_metadata option"
  res_audioMetadata :: "audio_metadata option"

text \<open>
  What a job returns: \<^verbatim>\<open>{success: false, error, details?, jobId, results?}\<close> or
  \<^verbatim>\<open>{success: true, jobId, videoId, metadata, audioMetadata, outputFiles: {wav, mp3}, message}\<close>.
  An absent key, \<^verbatim>\<open>undefined\<close> and \<^verbatim>\<open>null\<close> are all \<open>None\<close>.
\<close>

datatype job_result =
    Failed (jr_error: string) (jr_details: "string option") (jr_jobId: string)
           (jr_results: "results option")
  | Succeeded (jr_jobId: string) (jr_videoId: "string option")
              (jr_metadata: "source_metadata option") (jr_audioMetadata: "audio_metadata option")
              (jr_wav: path) (jr_mp3: "path option") (jr_message: string)

fun job_success :: "job_result \<Rightarrow> bool" where
  "job_success (Failed err det jid res) = False"
| "job_success (Succeeded jid vid md amd w m msg) = True"

record options =
  cleanupTemp :: "bool option"

text \<open>
  \<^verbatim>\<open>cleanupTempFiles\<close>: one \<^verbatim>\<open>unlink\<close> per path, each in its own \<^verbatim>\<open>try\<close>; a failure is
  written to the console and the loop goes on.
\<close>

fun cleanupTempFiles :: "'w engines \<Rightarrow> path list \<Rightarrow> 'w st \<Rightarrow> 'w st" where
  "cleanupTempFiles e [] st = st"
| "cleanupTempFiles e (p # filePaths) st =
     (case call_unlink e p st of
        (None, st1) \<Rightarrow>
          cleanupTempFiles e filePaths (console (ConsoleLog (''Deleted: '' @ path_basename p)) st1)
      | (Some err, st1) \<Rightarrow>
          cleanupTempFiles e filePaths
            (console (ConsoleWarn (''Could not delete '' @ p @ '':'') (message err)) st1))"

text \<open>
  The body of the \<^verbatim>\<open>try\<close> block of \<^verbatim>\<open>extractAndCleanAudio\<close>, after \<^verbatim>\<open>jobId\<close> and
  \<^verbatim>\<open>timestamp\<close> have been taken. \<open>Inl err\<close> is an exception leaving the block.
\<close>

definition extractAndCleanAudio_try ::
  "'w engines \<Rightarrow> config \<Rightarrow> string \<Rightarrow> options \<Rightarrow> string \<Rightarrow> nat \<Rightarrow> 'w st
     \<Rightarrow> (js_error + job_result) \<times> 'w st" where
  "extractAndCleanAudio_try e cfg videoUrl opts jobId timestamp st =
     (if \<not> isValidYouTubeUrl videoUrl then
        (Inr (Failed ''Invalid YouTube URL'' None jobId None), st)
      else
        let videoId = extractVideoId videoUrl;
            baseFilename = template_of_id videoId @ ''_'' @ string_of_nat timestamp;
            rawAudioPath = path_join (tempDir cfg) (baseFilename @ ''_raw.wav'');
            filteredAudioPath = path_join (tempDir cfg) (baseFilename @ ''_filtered.wav'');
            enhancedAudioPath = path_join (tempDir cfg) (baseFilename @ ''_enhanced.wav'');
            cleanVoicePath = path_join (outputDir cfg) (baseFilename @ ''_clean_voice.wav'');
            mp3OutputPath = path_join (outputDir cfg) (baseFilename @ ''_clean_voice.mp3'')
        in
        (case call_mkdir e (tempDir cfg) st of
           (Some err, st) \<Rightarrow> (Inl err, st)
         | (None, st) \<Rightarrow>
        (case call_mkdir e (outputDir cfg) st of
           (Some err, st) \<Rightarrow> (Inl err, st)
         | (None, st) \<Rightarrow>
        let results = \<lparr>res_jobId = jobId, res_videoId = videoId, steps = [], files = [],
                       res_metadata = None, res_audioMetadata = None\<rparr>
        in
        (case downloadAudio e videoUrl rawAudioPath st of
           (Inl err, st) \<Rightarrow> (Inl err, st)
         | (Inr downloadResult, st) \<Rightarrow>
        let results = results\<lparr>steps := obj_set (steps results) ''download'' downloadResult\<rparr>
        in
        if \<not> success downloadResult then
          (Inr (Failed ''Failed to download audio from YouTube'' (error downloadResult) jobId None), st)
        else
        let results = results\<lparr>res_metadata := metadata downloadResult,
                               files := obj_set (files results) ''raw'' rawAudioPath\<rparr>
        in
        (case extractRawAudio e cfg rawAudioPath filteredAudioPath st of
           (extractResult, st) \<Rightarrow>
        let results = results\<lparr>steps := obj_set (steps results) ''extract'' extractResult\<rparr>
        in
        if \<not> success extractResult then
          (Inr (Failed ''Failed to extract raw audio'' (error extractResult) jobId (Some results)), st)
        else
        let results = results\<lparr>files := obj_set (files results) ''extracted'' filteredAudioPath\<rparr>
        in
        (case applyNoiseReduction e cfg filteredAudioPath enhancedAudioPath st of
           (noiseReductionResult, st) \<Rightarrow>
        let results = results\<lparr>steps := obj_set (steps results) ''noiseReduction'' noiseReductionResult\<rparr>
        in
        if \<not> success noiseReductionResult then
          (Inr (Failed ''Failed to apply noise reduction'' (error noiseReductionResult) jobId
                  (Some results)), st)
        else
        let results = results\<lparr>files := obj_set (files results) ''noiseReduced'' enhancedAudioPath\<rparr>
        in
        (case enhanceVocals e cfg enhancedAudioPath cleanVoicePath st of
           (vocalEnhancementResult, st) \<Rightarrow>
        let results = results\<lparr>steps := obj_set (steps results) ''vocalEnhancement''
                                           vocalEnhancementResult\<rparr>
        in
        if \<not> success vocalEnhancementResult then
          (Inr (Failed ''Failed to enhance vocals'' (error vocalEnhancementResult) jobId
                  (Some results)), st)
        else
        let results = results\<lparr>files := obj_set (files results) ''cleanVoice'' cleanVoicePath\<rparr>
        in
        (case convertFormat e cleanVoicePath mp3OutputPath ''mp3'' st of
           (mp3ConversionResult, st) \<Rightarrow>
        let results = results\<lparr>steps := obj_set (steps results) ''mp3Conversion'' mp3ConversionResult\<rparr>;
            results = (if success mp3ConversionResult
                       then results\<lparr>files := obj_set (files results) ''mp3'' mp3OutputPath\<rparr>
                       else results)
        in
        (case getAudioMetadata e cleanVoicePath st of
           (metadataResult, st) \<Rightarrow>
        let results = (if probe_success metadataResult
                       then results\<lparr>res_audioMetadata := probe_metadata metadataResult\<rparr>
                       else results);
            st = (if cleanupTemp opts \<noteq> Some False
                  then cleanupTempFiles e [rawAudioPath, filteredAudioPath, enhancedAudioPath] st
                  else st)
        in
        (Inr (Succeeded jobId videoId (res_metadata results) (res_audioMetadata results)
                cleanVoicePath (js_or_null (map_of (files results) ''mp3''))
                ''Audio extracted and cleaned successfully''),
         st))))))))))"

text \<open>
  The whole method: \<^verbatim>\<open>uuidv4()\<close> and \<^verbatim>\<open>Date.now()\<close> are taken once at entry, and the
  \<^verbatim>\<open>catch\<close> block turns an exception of the body into an "unexpected error" result.
\<close>

definition extractAndCleanAudio ::
  "'w engines \<Rightarrow> config \<Rightarrow> string \<Rightarrow> options \<Rightarrow> 'w st \<Rightarrow> job_result \<times> 'w st" where
  "extractAndCleanAudio e cfg videoUrl opts st =
     (case st of (w, tr) \<Rightarrow>
     (case uuidv4 e w of (jobId, w) \<Rightarrow>
     (case date_now e w of (timestamp, w) \<Rightarrow>
     (case extractAndCleanAudio_try e cfg videoUrl opts jobId timestamp (w, tr) of
        (Inr r, st') \<Rightarrow> (r, st')
      | (Inl err, st') \<Rightarrow>
          (Failed ''Unexpected error during audio extraction'' (Some (message err)) jobId None,
           st')))))"

definition quickExtract_try ::
  "'w engines \<Rightarrow> config \<Rightarrow> string \<Rightarrow> string \<Rightarrow> nat \<Rightarrow> 'w st \<Rightarrow> (js_error + job_result) \<times> 'w st" where
  "quickExtract_try e cfg videoUrl jobId timestamp st =
     (if \<not> isValidYouTubeUrl videoUrl then
        (Inr (Failed ''Invalid YouTube URL'' None jobId None), st)
      else
        let videoId = extractVideoId videoUrl;
            baseFilename = template_of_id videoId @ ''_'' @ string_of_nat timestamp;
            outputPath = path_join (outputDir cfg) (baseFilename @ ''_audio.wav'')
        in
        (case call_mkdir e (outputDir cfg) st of
           (Some err, st) \<Rightarrow> (Inl err, st)
         | (None, st) \<Rightarrow>
        (case downloadAudio e videoUrl outputPath st of
           (Inl err, st) \<Rightarrow> (Inl err, st)
         | (Inr downloadResult, st) \<Rightarrow>
        if \<not> success downloadResult then
          (Inr (Failed ''Failed to download audio'' (error downloadResult) jobId None), st)
        else
          (Inr (Succeeded jobId videoId (metadata downloadResult) None outputPath None
                  ''Audio downloaded successfully''),
           st))))"

definition quickExtract :: "'w engines \<Rightarrow> config \<Rightarrow> string \<Rightarrow> 'w st \<Rightarrow> job_result \<times> 'w st" where
  "quickExtract e cfg videoUrl st =
     (case st of (w, tr) \<Rightarrow>
     (case uuidv4 e w of (jobId, w) \<Rightarrow>
     (case date_now e w of (timestamp, w) \<Rightarrow>
     (case quickExtract_try e cfg videoUrl jobId timestamp (w, tr) of
        (Inr r, st') \<Rightarrow> (r, st')
      | (Inl err, st') \<Rightarrow> (Failed ''Quick extraction failed'' (Some (message err)) jobId None, st')))))"


section \<open>The orchestrator cut at its stage boundaries\<close>

text \<open>
  The body of \<^verbatim>\<open>extractAndCleanAudio\<close> from one stage call to the end, as functions of the
  local variables live at that point. They are the sub-terms of \<open>extractAndCleanAudio_try\<close>
  (lemma \<open>try_phases\<close>) and exist so that each stage can be reasoned about on its own.
\<close>

definition finalize_job ::
  "'w engines \<Rightarrow> options \<Rightarrow> string \<Rightarrow> string option \<Rightarrow> path \<Rightarrow> path \<Rightarrow> path \<Rightarrow> path \<Rightarrow> results
     \<Rightarrow> metadata_result \<Rightarrow> 'w st \<Rightarrow> (js_error + job_result) \<times> 'w st" where
  "finalize_job e opts jobId videoId rawAudioPath filteredAudioPath enhancedAudioPath cleanVoicePath
       results metadataResult st =
     (let results = (if probe_success metadataResult
                       then results\<lparr>res_audioMetadata := probe_metadata metadataResult\<rparr>
                       else results);
            st = (if cleanupTemp opts \<noteq> Some False
                  then cleanupTempFiles e [rawAudioPath, filteredAudioPath, enhancedAudioPath] st
                  else st)
        in
        (Inr (Succeeded jobId videoId (res_metadata results) (res_audioMetadata results)
                cleanVoicePath (js_or_null (map_of (files results) ''mp3''))
                ''Audio extracted and cleaned successfully''),
         st))"

definition from_convert ::
  "'w engines \<Rightarrow> options \<Rightarrow> string \<Rightarrow> string option \<Rightarrow> path \<Rightarrow> path \<Rightarrow> path \<Rightarrow> path \<Rightarrow> path
     \<Rightarrow> results \<Rightarrow> 'w st \<Rightarrow> (js_error + job_result) \<times> 'w st" where
  "from_convert e opts jobId videoId rawAudioPath filteredAudioPath enhancedAudioPath cleanVoicePath
       mp3OutputPath results st =
     (case convertFormat e cleanVoicePath mp3OutputPath ''mp3'' st of
           (mp3ConversionResult, st) \<Rightarrow>
        let results = results\<lparr>steps := obj_set (steps results) ''mp3Conversion'' mp3ConversionResult\<rparr>;
            results = (if success mp3ConversionResult
                       then results\<lparr>files := obj_set (files results) ''mp3'' mp3OutputPath\<rparr>
                       else results)
        in
        (case getAudioMetadata e cleanVoicePath st of
           (metadataResult, st) \<Rightarrow>
             finalize_job e opts jobId videoId rawAudioPath filteredAudioPath enhancedAudioPath
               cleanVoicePath results metadataResult st))"

definition from_enhance ::
  "'w engines \<Rightarrow> config \<Rightarrow> options \<Rightarrow> string \<Rightarrow> string option \<Rightarrow> path \<Rightarrow> path \<Rightarrow> path \<Rightarrow> path \<Rightarrow> path
     \<Rightarrow> results \<Rightarrow> 'w st \<Rightarrow> (js_error + job_result) \<times> 'w st" where
  "from_enhance e cfg opts jobId videoId rawAudioPath filteredAudioPath enhancedAudioPath cleanVoicePath
       mp3OutputPath results st =
     (case enhanceVocals e cfg enhancedAudioPath cleanVoicePath st of
           (vocalEnhancementResult, st) \<Rightarrow>
        let results = results\<lparr>steps := obj_set (steps results) ''vocalEnhancement''
                                           vocalEnhancementResult\<rparr>
        in
        if \<not> success vocalEnhancementResult then
          (Inr (Failed ''Failed to enhance vocals'' (error vocalEnhancementResult) jobId
                  (Some results)), st)
        else
        let results = results\<lparr>files := obj_set (files results) ''cleanVoice'' cleanVoicePath\<rparr>
        in
        from_convert e opts jobId videoId rawAudioPath filteredAudioPath enhancedAudioPath
          cleanVoicePath mp3OutputPath results st)"

definition from_denoise ::
  "'w engines \<Rightarrow> config \<Rightarrow> options \<Rightarrow> string \<Rightarrow> string option \<Rightarrow> path \<Rightarrow> path \<Rightarrow> path \<Rightarrow> path \<Rightarrow> path
     \<Rightarrow> results \<Rightarrow> 'w st \<Rightarrow> (js_error + job_result) \<times> 'w st" where
  "from_denoise e cfg opts jobId videoId rawAudioPath filteredAudioPath enhancedAudioPath cleanVoicePath
       mp3OutputPath results st =
     (case applyNoiseReduction e cfg filteredAudioPath enhancedAudioPath st of
           (noiseReductionResult, st) \<Rightarrow>
        let results = results\<lparr>steps := obj_set (steps results) ''noiseReduction'' noiseReductionResult\<rparr>
        in
        if \<not> success noiseReductionResult then
          (Inr (Failed ''Failed to apply noise reduction'' (error noiseReductionResult) jobId
                  (Some results)), st)
        else
        let results = results\<lparr>files := obj_set (files results) ''noiseReduced'' enhancedAudioPath\<rparr>
        in
        from_enhance e cfg opts jobId videoId rawAudioPath filteredAudioPath enhancedAudioPath
          cleanVoicePath mp3OutputPath results st)"

definition from_extract ::
  "'w engines \<Rightarrow> config \<Rightarrow> options \<Rightarrow> string \<Rightarrow> string option \<Rightarrow> path \<Rightarrow> path \<Rightarrow> path \<Rightarrow> path \<Rightarrow> path
     \<Rightarrow> results \<Rightarrow> 'w st \<Rightarrow> (js_error + job_result) \<times> 'w st" where
  "from_extract e cfg opts jobId videoId rawAudioPath filteredAudioPath enhancedAudioPath cleanVoicePath
       mp3OutputPath results st =
     (case extractRawAudio e cfg rawAudioPath filteredAudioPath st of
           (extractResult, st) \<Rightarrow>
        let results = results\<lparr>steps := obj_set (steps results) ''extract'' extractResult\<rparr>
        in
        if \<not> success extractResult then
          (Inr (Failed ''Failed to extract raw audio'' (error extractResult) jobId (Some results)), st)
        else
        let results = results\<lparr>files := obj_set (files results) ''extracted'' filteredAudioPath\<rparr>
        in
        from_denoise e cfg opts jobId videoId rawAudioPath filteredAudioPath enhancedAudioPath
          cleanVoicePath mp3OutputPath results st)"

definition from_download ::
  "'w engines \<Rightarrow> config \<Rightarrow> string \<Rightarrow> options \<Rightarrow> string \<Rightarrow> string option \<Rightarrow> path \<Rightarrow> path \<Rightarrow> path \<Rightarrow> path \<Rightarrow> path
     \<Rightarrow> results \<Rightarrow> 'w st \<Rightarrow> (js_error + job_result) \<times> 'w st" where
  "from_download e cfg videoUrl opts jobId videoId rawAudioPath filteredAudioPath enhancedAudioPath
       cleanVoicePath mp3OutputPath results st =
     (case downloadAudio e videoUrl rawAudioPath st of
           (Inl err, st) \<Rightarrow> (Inl err, st)
         | (Inr downloadResult, st) \<Rightarrow>
        let results = results\<lparr>steps := obj_set (steps results) ''download'' downloadResult\<rparr>
        in
        if \<not> success downloadResult then
          (Inr (Failed ''Failed to download audio from YouTube'' (error downloadResult) jobId None), st)
        else
        let results = results\<lparr>res_metadata := metadata downloadResult,
                               files := obj_set (files results) ''raw'' rawAudioPath\<rparr>
        in
        from_extract e cfg opts jobId videoId rawAudioPath filteredAudioPath enhancedAudioPath
          cleanVoicePath mp3OutputPath results st)"


section \<open>Observations on the recorded calls\<close>

text \<open>The paths handed to \<^verbatim>\<open>fs.unlink\<close>, in order.\<close>

fun unlinked :: "event list \<Rightarrow> path list" where
  "unlinked [] = []"
| "unlinked (Unlink p r # tr) = p # unlinked tr"
| "unlinked (ev # tr) = unlinked tr"

text \<open>
  The stage runs of a trace: which stage ran an engine that writes a file, what it read and
  what it wrote. For the download stage that is the audio fetch (the metadata dump writes
  nothing); for the other stages the ffmpeg command.
\<close>

fun stage_io :: "event \<Rightarrow> (stage \<times> string \<times> path) option" where
  "stage_io (Youtubedl url flags r) =
     (case ytdl_output flags of
        Some out \<Rightarrow> if extractAudio flags then Some (Download, url, out) else None
      | None \<Rightarrow> None)"
| "stage_io (Ffmpeg tag cmd r) = Some (tag, cmd_input cmd, cmd_output cmd)"
| "stage_io ev = None"

definition stage_runs :: "event list \<Rightarrow> (stage \<times> string \<times> path) list" where
  "stage_runs tr = List.map_filter stage_io tr"

text \<open>Each run reads exactly what the run before it wrote.\<close>

fun chained :: "(stage \<times> string \<times> path) list \<Rightarrow> bool" where
  "chained [] = True"
| "chained [x] = True"
| "chained ((s1, i1, o1) # (s2, i2, o2) # rest) = (i2 = o1 \<and> chained ((s2, i2, o2) # rest))"

text \<open>The stage whose engine reported an error, for an engine call that failed.\<close>

fun engine_failure :: "event \<Rightarrow> (stage \<times> string) option" where
  "engine_failure (Youtubedl url flags (Some err)) = Some (Download, message err)"
| "engine_failure (Ffmpeg tag cmd (Some msg)) = Some (tag, msg)"
| "engine_failure ev = None"

fun first_engine_failure :: "event list \<Rightarrow> (stage \<times> string) option" where
  "first_engine_failure [] = None"
| "first_engine_failure (ev # tr) =
     (case engine_failure ev of Some f \<Rightarrow> Some f | None \<Rightarrow> first_engine_failure tr)"

text \<open>The stages on whose behalf an engine was called at all.\<close>

fun invoked_stage :: "event \<Rightarrow> stage option" where
  "invoked_stage (Youtubedl url flags r) = Some Download"
| "invoked_stage (Ffmpeg tag cmd r) = Some tag"
| "invoked_stage ev = None"

definition invoked_stages :: "event list \<Rightarrow> stage set" where
  "invoked_stages tr = set (List.map_filter invoked_stage tr)"


text \<open>The two shapes of a step result.\<close>

definition step_ok :: "path \<Rightarrow> step_result" where
  "step_ok p = \<lparr>success = True, filePath = Some p, error = None, metadata = None\<rparr>"

definition step_failed :: "string \<Rightarrow> step_result" where
  "step_failed msg = \<lparr>success = False, filePath = None, error = Some msg, metadata = None\<rparr>"

text \<open>What \<^verbatim>\<open>cleanupTempFiles\<close> records for given outcomes of its \<^verbatim>\<open>unlink\<close> calls.\<close>

fun cleanup_events :: "(path \<times> js_error option) list \<Rightarrow> event list" where
  "cleanup_events [] = []"
| "cleanup_events ((p, None) # rest) =
     Unlink p None # ConsoleLog (''Deleted: '' @ path_basename p) # cleanup_events rest"
| "cleanup_events ((p, Some err) # rest) =
     Unlink p (Some err) # ConsoleWarn (''Could not delete '' @ p @ '':'') (message err)
       # cleanup_events rest"

text \<open>The events of the cleanup step of a job: none when the option is \<^verbatim>\<open>false\<close>.\<close>

definition is_cleanup :: "options \<Rightarrow> path list \<Rightarrow> event list \<Rightarrow> bool" where
  "is_cleanup opts ps cl =
     (if cleanupTemp opts = Some False then cl = []
      else (\<exists>rs. length rs = length ps \<and> cl = cleanup_events (zip ps rs)))"


text \<open>The result objects of \<^verbatim>\<open>getAudioMetadata\<close> and of a successful \<^verbatim>\<open>downloadAudio\<close>.\<close>

definition audio_metadata_of :: "probe_data \<Rightarrow> audio_metadata" where
  "audio_metadata_of m =
     (let audioStream = find (\<lambda>s. codec_type s = ''audio'') (streams m)
      in \<lparr>am_duration = format_duration (probe_fmt m), am_bitRate = bit_rate (probe_fmt m),
          am_sampleRate = opt_field sample_rate audioStream,
          am_channels = opt_field stream_channels audioStream,
          am_codec = opt_field codec_name audioStream\<rparr>)"

definition probe_result :: "string + probe_data \<Rightarrow> metadata_result" where
  "probe_result pr =
     (case pr of
        Inl msg \<Rightarrow> \<lparr>probe_success = False, probe_error = Some msg, probe_metadata = None\<rparr>
      | Inr m \<Rightarrow> \<lparr>probe_success = True, probe_error = None,
                  probe_metadata = Some (audio_metadata_of m)\<rparr>)"

definition probe_error_of :: "string + probe_data \<Rightarrow> string option" where
  "probe_error_of pr = (case pr of Inl msg \<Rightarrow> Some msg | Inr m \<Rightarrow> None)"

definition source_metadata_of :: "video_info \<Rightarrow> source_metadata" where
  "source_metadata_of info =
     \<lparr>title = info_title info, duration = info_duration info, uploader = info_uploader info,
      uploadDate = info_upload_date info, description = info_description info\<rparr>"

definition download_ok :: "path \<Rightarrow> video_info \<Rightarrow> step_result" where
  "download_ok outputPath info =
     \<lparr>success = True, filePath = Some outputPath, error = None,
      metadata = Some (source_metadata_of info)\<rparr>"

text \<open>The calls of a download that succeeds, and the three ways one can fail.\<close>

definition download_ok_events :: "string \<Rightarrow> path \<Rightarrow> event list" where
  "download_ok_events url outputPath =
     [Mkdir (path_dirname outputPath) None, Youtubedl url info_flags None,
      Youtubedl url (audio_flags outputPath) None]"

definition download_failed_events :: "string \<Rightarrow> path \<Rightarrow> js_error \<Rightarrow> event list list" where
  "download_failed_events url outputPath err =
     [[Mkdir (path_dirname outputPath) (Some err)],
      [Mkdir (path_dirname outputPath) None, Youtubedl url info_flags (Some err)],
      [Mkdir (path_dirname outputPath) None, Youtubedl url info_flags None,
       Youtubedl url (audio_flags outputPath) (Some err)]]"

text \<open>The two directory creations at the start of a job.\<close>

definition setup_events :: "config \<Rightarrow> event list" where
  "setup_events cfg = [Mkdir (tempDir cfg) None, Mkdir (outputDir cfg) None]"


text \<open>The file names of a job, and the result and the closing events of a job that got through.\<close>

definition job_base :: "string \<Rightarrow> nat \<Rightarrow> string" where
  "job_base videoUrl timestamp =
     template_of_id (extractVideoId videoUrl) @ ''_'' @ string_of_nat timestamp"

definition temp_file :: "config \<Rightarrow> string \<Rightarrow> nat \<Rightarrow> string \<Rightarrow> path" where
  "temp_file cfg videoUrl timestamp suffix =
     path_join (tempDir cfg) (job_base videoUrl timestamp @ suffix)"

definition output_file :: "config \<Rightarrow> string \<Rightarrow> nat \<Rightarrow> string \<Rightarrow> path" where
  "output_file cfg videoUrl timestamp suffix =
     path_join (outputDir cfg) (job_base videoUrl timestamp @ suffix)"

definition finished_result ::
  "string \<Rightarrow> string option \<Rightarrow> results \<Rightarrow> path \<Rightarrow> path \<Rightarrow> string option \<Rightarrow> string + probe_data
     \<Rightarrow> job_result" where
  "finished_result jobId videoId results cleanP mp3P mp3r prober =
     Succeeded jobId videoId (res_metadata results)
       (case prober of Inl msg \<Rightarrow> res_audioMetadata results | Inr m \<Rightarrow> Some (audio_metadata_of m))
       cleanP
       (case mp3r of None \<Rightarrow> js_or_null (Some mp3P)
        | Some msg \<Rightarrow> js_or_null (map_of (files results) ''mp3''))
       ''Audio extracted and cleaned successfully''"

definition finished_events ::
  "path \<Rightarrow> path \<Rightarrow> string option \<Rightarrow> string + probe_data \<Rightarrow> event list \<Rightarrow> event list" where
  "finished_events cleanP mp3P mp3r prober cl =
     Ffmpeg FormatConversion (convertFormat_cmd cleanP mp3P ''mp3'') mp3r
       # Ffprobe cleanP (probe_error_of prober) # cl"


section \<open>A simulated environment for concrete runs\<close>

text \<open>
  The world is the list of files on disk. The download and every ffmpeg run that succeeds
  write their output file; \<^verbatim>\<open>unlink\<close> removes a file that exists and is not protected. The
  plan says which calls fail.
\<close>

record sim_plan =
  failing_download :: bool
  failing_outputs :: "path list"
  failing_probe :: bool
  undeletable :: "path list"

definition sim_info :: video_info where
  "sim_info =
     \<lparr>info_title = Some ''Talk'', info_duration = Some ''61'', info_uploader = Some ''someone'',
      info_upload_date = Some ''20240101'', info_description = None\<rparr>"

definition sim_probe :: probe_data where
  "sim_probe =
     \<lparr>streams = [\<lparr>codec_type = ''audio'', sample_rate = Some ''44100'', stream_channels = Some ''1'',
                  codec_name = Some ''pcm_s16le''\<rparr>],
      probe_fmt = \<lparr>format_duration = Some ''61.0'', bit_rate = Some ''705600''\<rparr>\<rparr>"

definition sim_engines :: "sim_plan \<Rightarrow> (path list) engines" where
  "sim_engines plan =
     \<lparr>uuidv4 = (\<lambda>w. (''job-1'', w)),
      date_now = (\<lambda>w. (1234, w)),
      fs_mkdir = (\<lambda>p w. (None, w)),
      fs_unlink = (\<lambda>p w. if p \<in> set w \<and> p \<notin> set (undeletable plan) then (None, removeAll p w)
                          else (Some (JsError ''EPERM: operation not permitted''), w)),
      youtubedl = (\<lambda>url flags w.
                     if failing_download plan then (Inl (JsError ''ERROR: Video unavailable''), w)
                     else (Inr sim_info,
                           (case ytdl_output flags of
                              Some out \<Rightarrow> if extractAudio flags then w @ [out] else w
                            | None \<Rightarrow> w))),
      ffmpeg_run = (\<lambda>cmd w. if cmd_output cmd \<in> set (failing_outputs plan)
                             then (Some ''ffmpeg exited with code 1'', w)
                             else (None, w @ [cmd_output cmd])),
      ffprobe = (\<lambda>p w. if failing_probe plan then (Inl ''ffprobe exited with code 1'', w)
                        else (Inr sim_probe, w))\<rparr>"

definition sim_config :: config where
  "sim_config = \<lparr>tempDir = ''/srv/temp'', outputDir = ''/srv/output'', audio = default_audio\<rparr>"

definition no_faults :: sim_plan where
  "no_faults = \<lparr>failing_download = False, failing_outputs = [], failing_probe = False, undeletable = []\<rparr>"

definition sim_url :: string where
  "sim_url = ''https://youtu.be/4wtgz5KLwOU?si=Sa0j2gSn7aAmy01v''"

text \<open>A job in the simulated environment, started on an empty disk, and some fault plans.\<close>

definition sim_run :: "sim_plan \<Rightarrow> string \<Rightarrow> options \<Rightarrow> job_result \<times> path list \<times> event list" where
  "sim_run plan videoUrl opts = extractAndCleanAudio (sim_engines plan) sim_config videoUrl opts ([], [])"

definition download_fault :: sim_plan where
  "download_fault = no_faults\<lparr>failing_download := True\<rparr>"

definition extract_fault :: sim_plan where
  "extract_fault = no_faults\<lparr>failing_outputs := [''/srv/temp/4wtgz5KLwOU_1234_filtered.wav'']\<rparr>"

definition mp3_fault :: sim_plan where
  "mp3_fault = no_faults\<lparr>failing_outputs := [''/srv/output/4wtgz5KLwOU_1234_clean_voice.mp3'']\<rparr>"

definition probe_fault :: sim_plan where
  "probe_fault = no_faults\<lparr>failing_probe := True\<rparr>"

definition unlink_fault :: sim_plan where
  "unlink_fault = no_faults\<lparr>undeletable := [''/srv/temp/4wtgz5KLwOU_1234_filtered.wav'']\<rparr>"

text \<open>A watch-page URL whose \<^verbatim>\<open>v\<close> parameter is not the first one, and a URL of another site.\<close>

definition watch_url_v_second :: string where
  "watch_url_v_second = ''https://www.youtube.com/watch?t=10&v=abc''"

definition other_site_url :: string where
  "other_site_url = ''https://example.com/video''"

text \<open>The file names of the simulated jobs.\<close>

definition sim_raw :: path where "sim_raw = ''/srv/temp/4wtgz5KLwOU_1234_raw.wav''"
definition sim_filtered :: path where "sim_filtered = ''/srv/temp/4wtgz5KLwOU_1234_filtered.wav''"
definition sim_enhanced :: path where "sim_enhanced = ''/srv/temp/4wtgz5KLwOU_1234_enhanced.wav''"
definition sim_clean :: path where "sim_clean = ''/srv/output/4wtgz5KLwOU_1234_clean_voice.wav''"
definition sim_mp3 :: path where "sim_mp3 = ''/srv/output/4wtgz5KLwOU_1234_clean_voice.mp3''"

definition null_raw :: path where "null_raw = ''/srv/temp/null_1234_raw.wav''"
definition null_filtered :: path where "null_filtered = ''/srv/temp/null_1234_filtered.wav''"
definition null_enhanced :: path where "null_enhanced = ''/srv/temp/null_1234_enhanced.wav''"
definition null_clean :: path where "null_clean = ''/srv/output/null_1234_clean_voice.wav''"
definition null_mp3 :: path where "null_mp3 = ''/srv/output/null_1234_clean_voice.mp3''"

text \<open>The calls of a simulated job up to and including vocal enhancement, all successful.\<close>

definition stages_ok_events :: "config \<Rightarrow> string \<Rightarrow> path \<Rightarrow> path \<Rightarrow> path \<Rightarrow> path \<Rightarrow> event list" where
  "stages_ok_events cfg url rawP filtP enhP cleanP =
     setup_events cfg @ download_ok_events url rawP
       @ [Ffmpeg ExtractRaw (extractRawAudio_cmd cfg rawP filtP) None,
          Ffmpeg NoiseReduction (applyNoiseReduction_cmd cfg filtP enhP) None,
          Ffmpeg VocalEnhancement (enhanceVocals_cmd cfg enhP cleanP) None]"

definition sim_success :: "string option \<Rightarrow> audio_metadata option \<Rightarrow> path \<Rightarrow> path option \<Rightarrow> job_result" where
  "sim_success vid amd cleanP mp3P =
     Succeeded ''job-1'' vid (Some (source_metadata_of sim_info)) amd cleanP mp3P
       ''Audio extracted and cleaned successfully''"


section \<open>Reading a filter chain and a URL form\<close>

text \<open>
  How the transcoding engine reads its filter-chain argument: the filters are separated by
  commas, and each filter is a name, an equals sign and its options.
\<close>

fun split_on :: "char \<Rightarrow> string \<Rightarrow> string list" where
  "split_on c [] = [[]]"
| "split_on c (x # xs) =
     (if x = c then [] # split_on c xs
      else (case split_on c xs of [] \<Rightarrow> [[x]] | y # ys \<Rightarrow> (x # y) # ys))"

definition filter_name :: "string \<Rightarrow> string" where
  "filter_name f = takeWhile (\<lambda>c. c \<noteq> CHR ''='') f"

datatype filter_kind =
  HighPass | LowPass | SpectralDenoiser | ClarityEqualizer | DynamicsCompander
  | LoudnessNormalization

definition filter_kind_of :: "string \<Rightarrow> filter_kind option" where
  "filter_kind_of n =
     (if n = ''highpass'' then Some HighPass
      else if n = ''lowpass'' then Some LowPass
      else if n = ''afftdn'' then Some SpectralDenoiser
      else if n = ''equalizer'' then Some ClarityEqualizer
      else if n = ''compand'' then Some DynamicsCompander
      else if n = ''loudnorm'' then Some LoudnessNormalization
      else None)"

definition filter_chain :: "string \<Rightarrow> filter_kind option list" where
  "filter_chain s = map (\<lambda>f. filter_kind_of (filter_name f)) (split_on CHR '','' s)"

text \<open>The strings a pattern denotes.\<close>

fun lang :: "rx \<Rightarrow> string set" where
  "lang (Lit l) = {l}"
| "lang (Opt r) = insert [] (lang r)"
| "lang (Alt a b) = lang a \<union> lang b"
| "lang (Seq a b) = {u @ v |u v. u \<in> lang a \<and> v \<in> lang b}"
| "lang (Plus c) = {u. u \<noteq> [] \<and> list_all c u}"
| "lang (Star c) = {u. list_all c u}"
| "lang (Cap r) = lang r"

text \<open>
  The two accepted reference forms of the specification, stated on strings without any
  pattern matching. Both start with an optional scheme and an optional \<^verbatim>\<open>www.\<close>; the
  identifier is a non-empty run of letters, digits, underscores and dashes, and anything
  may follow it.
  \<^item> the short-link form: \<^verbatim>\<open>youtu.be/\<close> and the identifier;
  \<^item> the watch-page form: \<^verbatim>\<open>youtube.com/watch?\<close>, any parameters on the same line,
    \<^verbatim>\<open>v=\<close> and the identifier.
\<close>

definition url_heads :: "string list" where
  "url_heads = [[], ''www.'', ''http://'', ''http://www.'', ''https://'', ''https://www.'']"

definition short_link_form :: "string \<Rightarrow> bool" where
  "short_link_form url =
     (\<exists>h ident rest. h \<in> set url_heads \<and> ident \<noteq> [] \<and> list_all word_or_dash ident
        \<and> url = h @ ''youtu.be/'' @ ident @ rest)"

definition watch_page_form :: "string \<Rightarrow> bool" where
  "watch_page_form url =
     (\<exists>h params ident rest. h \<in> set url_heads \<and> list_all any_char params \<and> ident \<noteq> []
        \<and> list_all word_or_dash ident
        \<and> url = h @ ''youtube.com/watch?'' @ params @ ''v='' @ ident @ rest)"


section \<open>The stages of a job, one at a time\<close>

lemma try_phases:
  "extractAndCleanAudio_try e cfg videoUrl opts jobId timestamp st =
     (if \<not> isValidYouTubeUrl videoUrl then
        (Inr (Failed ''Invalid YouTube URL'' None jobId None), st)
      else
        let videoId = extractVideoId videoUrl;
            baseFilename = template_of_id videoId @ ''_'' @ string_of_nat timestamp;
            rawAudioPath = path_join (tempDir cfg) (baseFilename @ ''_raw.wav'');
            filteredAudioPath = path_join (tempDir cfg) (baseFilename @ ''_filtered.wav'');
            enhancedAudioPath = path_join (tempDir cfg) (baseFilename @ ''_enhanced.wav'');
            cleanVoicePath = path_join (outputDir cfg) (baseFilename @ ''_clean_voice.wav'');
            mp3OutputPath = path_join (outputDir cfg) (baseFilename @ ''_clean_voice.mp3'')
        in
        (case call_mkdir e (tempDir cfg) st of
           (Some err, st) \<Rightarrow> (Inl err, st)
         | (None, st) \<Rightarrow>
        (case call_mkdir e (outputDir cfg) st of
           (Some err, st) \<Rightarrow> (Inl err, st)
         | (None, st) \<Rightarrow>
        let results = \<lparr>res_jobId = jobId, res_videoId = videoId, steps = [], files = [],
                       res_metadata = None, res_audioMetadata = None\<rparr>
        in from_download e cfg videoUrl opts jobId videoId rawAudioPath filteredAudioPath
             enhancedAudioPath cleanVoicePath mp3OutputPath results st)))"
  unfolding extractAndCleanAudio_try_def from_download_def from_extract_def from_denoise_def
    from_enhance_def from_convert_def finalize_job_def
  by (rule refl)

lemma cleanupTempFiles_trace:
  "\<exists>rs w'. length rs = length ps \<and>
     cleanupTempFiles e ps (w, tr) = (w', tr @ cleanup_events (zip ps rs))"
proof (induction ps arbitrary: w tr)
  case Nil
  then show ?case by simp
next
  case (Cons p ps)
  obtain r w1 where u: "fs_unlink e p w = (r, w1)" by (cases "fs_unlink e p w")
  define ev where "ev = (case r of None \<Rightarrow> ConsoleLog (''Deleted: '' @ path_basename p)
     | Some err \<Rightarrow> ConsoleWarn (''Could not delete '' @ p @ '':'') (message err))"
  from Cons [of w1 "tr @ [Unlink p r, ev]"] obtain rs w' where
    rs: "length rs = length ps"
    "cleanupTempFiles e ps (w1, tr @ [Unlink p r, ev]) = (w', (tr @ [Unlink p r, ev]) @ cleanup_events (zip ps rs))"
    by blast
  have "length (r # rs) = length (p # ps) \<and>
     cleanupTempFiles e (p # ps) (w, tr) = (w', tr @ cleanup_events (zip (p # ps) (r # rs)))"
    using u rs by (cases r) (simp_all add: call_unlink_def console_def ev_def)
  then show ?case by blast
qed

lemma run_command_eq:
  "ffmpeg_run e cmd w = (r, w1) \<Longrightarrow>
   run_command e tag cmd (w, tr) =
     ((case r of None \<Rightarrow> step_ok (cmd_output cmd) | Some msg \<Rightarrow> step_failed msg),
      (w1, tr @ [Ffmpeg tag cmd r]))"
  by (cases r) (simp_all add: run_command_def call_ffmpeg_def step_ok_def step_failed_def)

lemma cmd_io [simp]:
  "cmd_input (extractRawAudio_cmd cfg i p) = i" "cmd_output (extractRawAudio_cmd cfg i p) = p"
  "cmd_input (applyNoiseReduction_cmd cfg i p) = i" "cmd_output (applyNoiseReduction_cmd cfg i p) = p"
  "cmd_input (enhanceVocals_cmd cfg i p) = i" "cmd_output (enhanceVocals_cmd cfg i p) = p"
  "cmd_input (convertFormat_cmd i p fmt) = i" "cmd_output (convertFormat_cmd i p fmt) = p"
  by (simp_all add: extractRawAudio_cmd_def applyNoiseReduction_cmd_def enhanceVocals_cmd_def
        convertFormat_cmd_def Let_def)

lemma getAudioMetadata_eq:
  "ffprobe e p w = (pr, w1) \<Longrightarrow>
   getAudioMetadata e p (w, tr) = (probe_result pr, (w1, tr @ [Ffprobe p (probe_error_of pr)]))"
  by (cases pr)
     (simp_all add: getAudioMetadata_def call_ffprobe_def probe_result_def probe_error_of_def
        audio_metadata_of_def Let_def)

lemma finalize_job_cases:
  assumes "finalize_job e opts jobId videoId rawP filtP enhP cleanP results m (w, tr) = out"
  obtains w' cl where
    "out = (Inr (Succeeded jobId videoId (res_metadata results)
                  (if probe_success m then probe_metadata m else res_audioMetadata results)
                  cleanP (js_or_null (map_of (files results) ''mp3''))
                  ''Audio extracted and cleaned successfully''),
            (w', tr @ cl))"
    "is_cleanup opts [rawP, filtP, enhP] cl"
proof (cases "cleanupTemp opts = Some False")
  case True
  with assms have "out = (Inr (Succeeded jobId videoId (res_metadata results)
                  (if probe_success m then probe_metadata m else res_audioMetadata results)
                  cleanP (js_or_null (map_of (files results) ''mp3''))
                  ''Audio extracted and cleaned successfully''),
            (w, tr @ []))"
    by (cases "probe_success m") (simp_all add: finalize_job_def Let_def)
  moreover have "is_cleanup opts [rawP, filtP, enhP] []" using True by (simp add: is_cleanup_def)
  ultimately show thesis by (rule that)
next
  case False
  obtain rs w' where rs: "length rs = length [rawP, filtP, enhP]"
    "cleanupTempFiles e [rawP, filtP, enhP] (w, tr) = (w', tr @ cleanup_events (zip [rawP, filtP, enhP] rs))"
    using cleanupTempFiles_trace [where ps = "[rawP, filtP, enhP]" and e = e and w = w and tr = tr]
    by auto
  from assms False rs(2) have "out = (Inr (Succeeded jobId videoId (res_metadata results)
                  (if probe_success m then probe_metadata m else res_audioMetadata results)
                  cleanP (js_or_null (map_of (files results) ''mp3''))
                  ''Audio extracted and cleaned successfully''),
            (w', tr @ cleanup_events (zip [rawP, filtP, enhP] rs)))"
    by (cases "probe_success m") (simp_all add: finalize_job_def Let_def)
  moreover have "is_cleanup opts [rawP, filtP, enhP] (cleanup_events (zip [rawP, filtP, enhP] rs))"
    using False rs(1) unfolding is_cleanup_def by auto
  ultimately show thesis by (rule that)
qed

lemma map_of_obj_set_same: "map_of (obj_set m k v) k = Some v"
  by (induction m) auto

lemma map_of_obj_set_other: "k' \<noteq> k \<Longrightarrow> map_of (obj_set m k v) k' = map_of m k'"
  by (induction m) auto

lemma from_convert_cases:
  assumes "from_convert e opts jobId videoId rawP filtP enhP cleanP mp3P results (w, tr) = out"
  obtains w' mp3r prober cl where
    "out = (Inr (finished_result jobId videoId results cleanP mp3P mp3r prober),
            (w', tr @ finished_events cleanP mp3P mp3r prober cl))"
    "is_cleanup opts [rawP, filtP, enhP] cl"
proof -
  obtain r w1 where f: "ffmpeg_run e (convertFormat_cmd cleanP mp3P ''mp3'') w = (r, w1)"
    by (cases "ffmpeg_run e (convertFormat_cmd cleanP mp3P ''mp3'') w")
  obtain pr w2 where g: "ffprobe e cleanP w1 = (pr, w2)" by (cases "ffprobe e cleanP w1")
  define results' where "results' =
    (let results = results\<lparr>steps := obj_set (steps results) ''mp3Conversion''
          (case r of None \<Rightarrow> step_ok mp3P | Some msg \<Rightarrow> step_failed msg)\<rparr>
     in if r = None then results\<lparr>files := obj_set (files results) ''mp3'' mp3P\<rparr> else results)"
  have "out = finalize_job e opts jobId videoId rawP filtP enhP cleanP results' (probe_result pr)
     (w2, (tr @ [Ffmpeg FormatConversion (convertFormat_cmd cleanP mp3P ''mp3'') r])
           @ [Ffprobe cleanP (probe_error_of pr)])"
    using assms
    by (cases r)
       (simp_all add: from_convert_def convertFormat_def run_command_eq [OF f]
          getAudioMetadata_eq [OF g] Let_def results'_def step_ok_def step_failed_def)
  from finalize_job_cases [OF this [symmetric]] obtain w' cl where
    o: "out = (Inr (Succeeded jobId videoId (res_metadata results')
                  (if probe_success (probe_result pr) then probe_metadata (probe_result pr)
                   else res_audioMetadata results')
                  cleanP (js_or_null (map_of (files results') ''mp3''))
                  ''Audio extracted and cleaned successfully''),
            (w', ((tr @ [Ffmpeg FormatConversion (convertFormat_cmd cleanP mp3P ''mp3'') r])
           @ [Ffprobe cleanP (probe_error_of pr)]) @ cl))"
    and c: "is_cleanup opts [rawP, filtP, enhP] cl"
    by blast
  have "out = (Inr (finished_result jobId videoId results cleanP mp3P r pr),
            (w', tr @ finished_events cleanP mp3P r pr cl))"
    unfolding o finished_result_def finished_events_def
    by (cases r; cases pr)
       (simp_all add: results'_def probe_result_def map_of_obj_set_same Let_def)
  from this c show thesis by (rule that)
qed

lemma finished_result_cong:
  assumes "res_metadata r' = res_metadata r" "res_audioMetadata r' = res_audioMetadata r"
    "map_of (files r') ''mp3'' = map_of (files r) ''mp3''"
  shows "finished_result jobId videoId r' cleanP mp3P mp3r prober =
         finished_result jobId videoId r cleanP mp3P mp3r prober"
  using assms by (cases prober; cases mp3r) (simp_all add: finished_result_def)

lemma from_enhance_cases:
  assumes "from_enhance e cfg opts jobId videoId rawP filtP enhP cleanP mp3P results (w, tr) = out"
  obtains (enhance_failed) w' msg where
      "out = (Inr (Failed ''Failed to enhance vocals'' (Some msg) jobId
                    (Some (results\<lparr>steps := obj_set (steps results) ''vocalEnhancement''
                                               (step_failed msg)\<rparr>))),
              (w', tr @ [Ffmpeg VocalEnhancement (enhanceVocals_cmd cfg enhP cleanP) (Some msg)]))"
  | (finished) w' mp3r prober cl where
      "out = (Inr (finished_result jobId videoId results cleanP mp3P mp3r prober),
              (w', tr @ Ffmpeg VocalEnhancement (enhanceVocals_cmd cfg enhP cleanP) None
                        # finished_events cleanP mp3P mp3r prober cl))"
      "is_cleanup opts [rawP, filtP, enhP] cl"
proof -
  obtain r w1 where f: "ffmpeg_run e (enhanceVocals_cmd cfg enhP cleanP) w = (r, w1)"
    by (cases "ffmpeg_run e (enhanceVocals_cmd cfg enhP cleanP) w")
  show thesis
  proof (cases r)
    case (Some msg)
    with assms have "out = (Inr (Failed ''Failed to enhance vocals'' (Some msg) jobId
                    (Some (results\<lparr>steps := obj_set (steps results) ''vocalEnhancement''
                                               (step_failed msg)\<rparr>))),
              (w1, tr @ [Ffmpeg VocalEnhancement (enhanceVocals_cmd cfg enhP cleanP) (Some msg)]))"
      by (simp add: from_enhance_def enhanceVocals_def run_command_eq [OF f] Let_def step_failed_def)
    then show thesis by (rule enhance_failed)
  next
    case None
    define results' where "results' =
      results\<lparr>steps := obj_set (steps results) ''vocalEnhancement'' (step_ok cleanP),
              files := obj_set (files results) ''cleanVoice'' cleanP\<rparr>"
    from None assms have "from_convert e opts jobId videoId rawP filtP enhP cleanP mp3P results'
        (w1, tr @ [Ffmpeg VocalEnhancement (enhanceVocals_cmd cfg enhP cleanP) None]) = out"
      by (simp add: from_enhance_def enhanceVocals_def run_command_eq [OF f] Let_def step_ok_def
            results'_def)
    then obtain w' mp3r prober cl where
      o: "out = (Inr (finished_result jobId videoId results' cleanP mp3P mp3r prober),
            (w', (tr @ [Ffmpeg VocalEnhancement (enhanceVocals_cmd cfg enhP cleanP) None])
                   @ finished_events cleanP mp3P mp3r prober cl))"
      and c: "is_cleanup opts [rawP, filtP, enhP] cl"
      by (rule from_convert_cases)
    have "finished_result jobId videoId results' cleanP mp3P mp3r prober =
          finished_result jobId videoId results cleanP mp3P mp3r prober"
      by (rule finished_result_cong) (simp_all add: results'_def map_of_obj_set_other)
    with o have "out = (Inr (finished_result jobId videoId results cleanP mp3P mp3r prober),
              (w', tr @ Ffmpeg VocalEnhancement (enhanceVocals_cmd cfg enhP cleanP) None
                        # finished_events cleanP mp3P mp3r prober cl))"
      by simp
    from this c show thesis by (rule finished)
  qed
qed

lemma from_denoise_cases:
  assumes "from_denoise e cfg opts jobId videoId rawP filtP enhP cleanP mp3P results (w, tr) = out"
  obtains (denoise_failed) w' msg where
      "out = (Inr (Failed ''Failed to apply noise reduction'' (Some msg) jobId
                    (Some (results\<lparr>steps := obj_set (steps results) ''noiseReduction''
                                               (step_failed msg)\<rparr>))),
              (w', tr @ [Ffmpeg NoiseReduction (applyNoiseReduction_cmd cfg filtP enhP) (Some msg)]))"
  | (enhance_failed) w' msg where
      "out = (Inr (Failed ''Failed to enhance vocals'' (Some msg) jobId
                    (Some (results\<lparr>steps := obj_set (obj_set (steps results) ''noiseReduction''
                                                 (step_ok enhP)) ''vocalEnhancement'' (step_failed msg),
                                    files := obj_set (files results) ''noiseReduced'' enhP\<rparr>))),
              (w', tr @ [Ffmpeg NoiseReduction (applyNoiseReduction_cmd cfg filtP enhP) None,
                         Ffmpeg VocalEnhancement (enhanceVocals_cmd cfg enhP cleanP) (Some msg)]))"
  | (finished) w' mp3r prober cl where
      "out = (Inr (finished_result jobId videoId results cleanP mp3P mp3r prober),
              (w', tr @ Ffmpeg NoiseReduction (applyNoiseReduction_cmd cfg filtP enhP) None
                        # Ffmpeg VocalEnhancement (enhanceVocals_cmd cfg enhP cleanP) None
                        # finished_events cleanP mp3P mp3r prober cl))"
      "is_cleanup opts [rawP, filtP, enhP] cl"
proof -
  obtain r w1 where f: "ffmpeg_run e (applyNoiseReduction_cmd cfg filtP enhP) w = (r, w1)"
    by (cases "ffmpeg_run e (applyNoiseReduction_cmd cfg filtP enhP) w")
  show thesis
  proof (cases r)
    case (Some msg)
    with assms have "out = (Inr (Failed ''Failed to apply noise reduction'' (Some msg) jobId
                    (Some (results\<lparr>steps := obj_set (steps results) ''noiseReduction''
                                               (step_failed msg)\<rparr>))),
              (w1, tr @ [Ffmpeg NoiseReduction (applyNoiseReduction_cmd cfg filtP enhP) (Some msg)]))"
      by (simp add: from_denoise_def applyNoiseReduction_def run_command_eq [OF f] Let_def
            step_failed_def)
    then show thesis by (rule denoise_failed)
  next
    case None
    define results' where "results' =
      results\<lparr>steps := obj_set (steps results) ''noiseReduction'' (step_ok enhP),
              files := obj_set (files results) ''noiseReduced'' enhP\<rparr>"
    from None assms have "from_enhance e cfg opts jobId videoId rawP filtP enhP cleanP mp3P results'
        (w1, tr @ [Ffmpeg NoiseReduction (applyNoiseReduction_cmd cfg filtP enhP) None]) = out"
      by (simp add: from_denoise_def applyNoiseReduction_def run_command_eq [OF f] Let_def
            step_ok_def results'_def)
    then show thesis
    proof (cases rule: from_enhance_cases)
      case (enhance_failed w' msg)
      then have "out = (Inr (Failed ''Failed to enhance vocals'' (Some msg) jobId
                    (Some (results\<lparr>steps := obj_set (obj_set (steps results) ''noiseReduction''
                                                 (step_ok enhP)) ''vocalEnhancement'' (step_failed msg),
                                    files := obj_set (files results) ''noiseReduced'' enhP\<rparr>))),
              (w', tr @ [Ffmpeg NoiseReduction (applyNoiseReduction_cmd cfg filtP enhP) None,
                         Ffmpeg VocalEnhancement (enhanceVocals_cmd cfg enhP cleanP) (Some msg)]))"
        by (simp add: results'_def)
      then show thesis by (rule that(2))
    next
      case (finished w' mp3r prober cl)
      have "finished_result jobId videoId results' cleanP mp3P mp3r prober =
            finished_result jobId videoId results cleanP mp3P mp3r prober"
        by (rule finished_result_cong) (simp_all add: results'_def map_of_obj_set_other)
      with finished(1) have "out = (Inr (finished_result jobId videoId results cleanP mp3P mp3r prober),
              (w', tr @ Ffmpeg NoiseReduction (applyNoiseReduction_cmd cfg filtP enhP) None
                        # Ffmpeg VocalEnhancement (enhanceVocals_cmd cfg enhP cleanP) None
                        # finished_events cleanP mp3P mp3r prober cl))"
        by simp
      from this finished(2) show thesis by (rule that(3))
    qed
  qed
qed


lemma from_extract_cases:
  assumes "from_extract e cfg opts jobId videoId rawP filtP enhP cleanP mp3P results (w, tr) = out"
  obtains (extract_failed) w' msg where
      "out = (Inr (Failed ''Failed to extract raw audio'' (Some msg) jobId
                    (Some (results\<lparr>steps := obj_set (steps results) ''extract'' (step_failed msg)\<rparr>))),
              (w', tr @ [Ffmpeg ExtractRaw (extractRawAudio_cmd cfg rawP filtP) (Some msg)]))"
  | (denoise_failed) w' msg where
      "out = (Inr (Failed ''Failed to apply noise reduction'' (Some msg) jobId
                    (Some (results\<lparr>steps := obj_set (obj_set (steps results) ''extract''
                                                 (step_ok filtP)) ''noiseReduction'' (step_failed msg),
                                    files := obj_set (files results) ''extracted'' filtP\<rparr>))),
              (w', tr @ [Ffmpeg ExtractRaw (extractRawAudio_cmd cfg rawP filtP) None,
                         Ffmpeg NoiseReduction (applyNoiseReduction_cmd cfg filtP enhP) (Some msg)]))"
  | (enhance_failed) w' msg where
      "out = (Inr (Failed ''Failed to enhance vocals'' (Some msg) jobId
                    (Some (results\<lparr>steps := obj_set (obj_set (obj_set (steps results) ''extract''
                                                 (step_ok filtP)) ''noiseReduction'' (step_ok enhP))
                                                 ''vocalEnhancement'' (step_failed msg),
                                    files := obj_set (obj_set (files results) ''extracted'' filtP)
                                               ''noiseReduced'' enhP\<rparr>))),
              (w', tr @ [Ffmpeg ExtractRaw (extractRawAudio_cmd cfg rawP filtP) None,
                         Ffmpeg NoiseReduction (applyNoiseReduction_cmd cfg filtP enhP) None,
                         Ffmpeg VocalEnhancement (enhanceVocals_cmd cfg enhP cleanP) (Some msg)]))"
  | (finished) w' mp3r prober cl where
      "out = (Inr (finished_result jobId videoId results cleanP mp3P mp3r prober),
              (w', tr @ Ffmpeg ExtractRaw (extractRawAudio_cmd cfg rawP filtP) None
                        # Ffmpeg NoiseReduction (applyNoiseReduction_cmd cfg filtP enhP) None
                        # Ffmpeg VocalEnhancement (enhanceVocals_cmd cfg enhP cleanP) None
                        # finished_events cleanP mp3P mp3r prober cl))"
      "is_cleanup opts [rawP, filtP, enhP] cl"
proof -
  obtain r w1 where f: "ffmpeg_run e (extractRawAudio_cmd cfg rawP filtP) w = (r, w1)"
    by (cases "ffmpeg_run e (extractRawAudio_cmd cfg rawP filtP) w")
  show thesis
  proof (cases r)
    case (Some msg)
    with assms have "out = (Inr (Failed ''Failed to extract raw audio'' (Some msg) jobId
                    (Some (results\<lparr>steps := obj_set (steps results) ''extract'' (step_failed msg)\<rparr>))),
              (w1, tr @ [Ffmpeg ExtractRaw (extractRawAudio_cmd cfg rawP filtP) (Some msg)]))"
      by (simp add: from_extract_def extractRawAudio_def run_command_eq [OF f] Let_def
            step_failed_def)
    then show thesis by (rule extract_failed)
  next
    case None
    define results' where "results' =
      results\<lparr>steps := obj_set (steps results) ''extract'' (step_ok filtP),
              files := obj_set (files results) ''extracted'' filtP\<rparr>"
    from None assms have "from_denoise e cfg opts jobId videoId rawP filtP enhP cleanP mp3P results'
        (w1, tr @ [Ffmpeg ExtractRaw (extractRawAudio_cmd cfg rawP filtP) None]) = out"
      by (simp add: from_extract_def extractRawAudio_def run_command_eq [OF f] Let_def
            step_ok_def results'_def)
    then show thesis
    proof (cases rule: from_denoise_cases)
      case (denoise_failed w' msg)
      then have "out = (Inr (Failed ''Failed to apply noise reduction'' (Some msg) jobId
                    (Some (results\<lparr>steps := obj_set (obj_set (steps results) ''extract''
                                                 (step_ok filtP)) ''noiseReduction'' (step_failed msg),
                                    files := obj_set (files results) ''extracted'' filtP\<rparr>))),
              (w', tr @ [Ffmpeg ExtractRaw (extractRawAudio_cmd cfg rawP filtP) None,
                         Ffmpeg NoiseReduction (applyNoiseReduction_cmd cfg filtP enhP) (Some msg)]))"
        by (simp add: results'_def)
      then show thesis by (rule that(2))
    next
      case (enhance_failed w' msg)
      then have "out = (Inr (Failed ''Failed to enhance vocals'' (Some msg) jobId
                    (Some (results\<lparr>steps := obj_set (obj_set (obj_set (steps results) ''extract''
                                                 (step_ok filtP)) ''noiseReduction'' (step_ok enhP))
                                                 ''vocalEnhancement'' (step_failed msg),
                                    files := obj_set (obj_set (files results) ''extracted'' filtP)
                                               ''noiseReduced'' enhP\<rparr>))),
              (w', tr @ [Ffmpeg ExtractRaw (extractRawAudio_cmd cfg rawP filtP) None,
                         Ffmpeg NoiseReduction (applyNoiseReduction_cmd cfg filtP enhP) None,
                         Ffmpeg VocalEnhancement (enhanceVocals_cmd cfg enhP cleanP) (Some msg)]))"
        by (simp add: results'_def)
      then show thesis by (rule that(3))
    next
      case (finished w' mp3r prober cl)
      have "finished_result jobId videoId results' cleanP mp3P mp3r prober =
            finished_result jobId videoId results cleanP mp3P mp3r prober"
        by (rule finished_result_cong) (simp_all add: results'_def map_of_obj_set_other)
      with finished(1) have "out = (Inr (finished_result jobId videoId results cleanP mp3P mp3r prober),
              (w', tr @ Ffmpeg ExtractRaw (extractRawAudio_cmd cfg rawP filtP) None
                        # Ffmpeg NoiseReduction (applyNoiseReduction_cmd cfg filtP enhP) None
                        # Ffmpeg VocalEnhancement (enhanceVocals_cmd cfg enhP cleanP) None
                        # finished_events cleanP mp3P mp3r prober cl))"
        by simp
      from this finished(2) show thesis by (rule that(4))
    qed
  qed
qed

lemma downloadAudio_cases:
  assumes "downloadAudio e url outP (w, tr) = out"
  obtains (download_failed) w' err dl where
      "out = (Inr (step_failed (js_or (message err) ''Failed to download audio from YouTube'')),
              (w', tr @ dl))"
      "dl \<in> set (download_failed_events url outP err)"
  | (downloaded) w' info where
      "out = (Inr (download_ok outP info), (w', tr @ download_ok_events url outP))"
proof -
  obtain r1 w1 where m: "fs_mkdir e (path_dirname outP) w = (r1, w1)"
    by (cases "fs_mkdir e (path_dirname outP) w")
  obtain r2 w2 where i: "youtubedl e url info_flags w1 = (r2, w2)"
    by (cases "youtubedl e url info_flags w1")
  obtain r3 w3 where a: "youtubedl e url (audio_flags outP) w2 = (r3, w3)"
    by (cases "youtubedl e url (audio_flags outP) w2")
  show thesis
  proof (cases r1)
    case (Some err)
    with assms m have "out = (Inr (step_failed (js_or (message err) ''Failed to download audio from YouTube'')),
              (w1, tr @ [Mkdir (path_dirname outP) (Some err)]))"
      by (simp add: downloadAudio_def downloadAudio_try_def call_mkdir_def step_failed_def)
    moreover have "[Mkdir (path_dirname outP) (Some err)] \<in> set (download_failed_events url outP err)"
      by (simp add: download_failed_events_def)
    ultimately show thesis by (rule download_failed)
  next
    case None
    note r1 = this
    show thesis
    proof (cases r2)
      case (Inl err)
      with assms m i r1 have "out = (Inr (step_failed (js_or (message err) ''Failed to download audio from YouTube'')),
              (w2, tr @ [Mkdir (path_dirname outP) None, Youtubedl url info_flags (Some err)]))"
        by (simp add: downloadAudio_def downloadAudio_try_def call_mkdir_def call_youtubedl_def
              step_failed_def)
      moreover have "[Mkdir (path_dirname outP) None, Youtubedl url info_flags (Some err)]
          \<in> set (download_failed_events url outP err)"
        by (simp add: download_failed_events_def)
      ultimately show thesis by (rule download_failed)
    next
      case (Inr info)
      note r2 = this
      show thesis
      proof (cases r3)
        case (Inl err)
        with assms m i a r1 r2 have "out = (Inr (step_failed (js_or (message err) ''Failed to download audio from YouTube'')),
              (w3, tr @ [Mkdir (path_dirname outP) None, Youtubedl url info_flags None,
                         Youtubedl url (audio_flags outP) (Some err)]))"
          by (simp add: downloadAudio_def downloadAudio_try_def call_mkdir_def call_youtubedl_def
                step_failed_def)
        moreover have "[Mkdir (path_dirname outP) None, Youtubedl url info_flags None,
                         Youtubedl url (audio_flags outP) (Some err)]
            \<in> set (download_failed_events url outP err)"
          by (simp add: download_failed_events_def)
        ultimately show thesis by (rule download_failed)
      next
        case (Inr result)
        with assms m i a r1 r2 have "out = (Inr (download_ok outP info), (w3, tr @ download_ok_events url outP))"
          by (simp add: downloadAudio_def downloadAudio_try_def call_mkdir_def call_youtubedl_def
                download_ok_def download_ok_events_def source_metadata_of_def)
        then show thesis by (rule downloaded)
      qed
    qed
  qed
qed


lemma from_download_cases:
  assumes run: "from_download e cfg url opts jobId videoId rawP filtP enhP cleanP mp3P
             \<lparr>res_jobId = jobId, res_videoId = videoId, steps = [], files = [],
              res_metadata = None, res_audioMetadata = None\<rparr> (w, tr) = out"
    and mp3P: "mp3P \<noteq> []"
  obtains (download_failed) w' err dl where
      "out = (Inr (Failed ''Failed to download audio from YouTube''
                     (Some (js_or (message err) ''Failed to download audio from YouTube'')) jobId None),
              (w', tr @ dl))"
      "dl \<in> set (download_failed_events url rawP err)"
  | (extract_failed) w' info msg rs where
      "out = (Inr (Failed ''Failed to extract raw audio'' (Some msg) jobId (Some rs)),
              (w', tr @ download_ok_events url rawP
                      @ [Ffmpeg ExtractRaw (extractRawAudio_cmd cfg rawP filtP) (Some msg)]))"
      "steps rs = [(''download'', download_ok rawP info), (''extract'', step_failed msg)]"
      "files rs = [(''raw'', rawP)]"
  | (denoise_failed) w' info msg rs where
      "out = (Inr (Failed ''Failed to apply noise reduction'' (Some msg) jobId (Some rs)),
              (w', tr @ download_ok_events url rawP
                      @ [Ffmpeg ExtractRaw (extractRawAudio_cmd cfg rawP filtP) None,
                         Ffmpeg NoiseReduction (applyNoiseReduction_cmd cfg filtP enhP) (Some msg)]))"
      "steps rs = [(''download'', download_ok rawP info), (''extract'', step_ok filtP),
                   (''noiseReduction'', step_failed msg)]"
      "files rs = [(''raw'', rawP), (''extracted'', filtP)]"
  | (enhance_failed) w' info msg rs where
      "out = (Inr (Failed ''Failed to enhance vocals'' (Some msg) jobId (Some rs)),
              (w', tr @ download_ok_events url rawP
                      @ [Ffmpeg ExtractRaw (extractRawAudio_cmd cfg rawP filtP) None,
                         Ffmpeg NoiseReduction (applyNoiseReduction_cmd cfg filtP enhP) None,
                         Ffmpeg VocalEnhancement (enhanceVocals_cmd cfg enhP cleanP) (Some msg)]))"
      "steps rs = [(''download'', download_ok rawP info), (''extract'', step_ok filtP),
                   (''noiseReduction'', step_ok enhP), (''vocalEnhancement'', step_failed msg)]"
      "files rs = [(''raw'', rawP), (''extracted'', filtP), (''noiseReduced'', enhP)]"
  | (finished) w' info mp3r prober cl where
      "out = (Inr (Succeeded jobId videoId (Some (source_metadata_of info))
                     (case prober of Inl msg \<Rightarrow> None | Inr m \<Rightarrow> Some (audio_metadata_of m))
                     cleanP (case mp3r of None \<Rightarrow> Some mp3P | Some msg \<Rightarrow> None)
                     ''Audio extracted and cleaned successfully''),
              (w', tr @ download_ok_events url rawP
                      @ [Ffmpeg ExtractRaw (extractRawAudio_cmd cfg rawP filtP) None,
                         Ffmpeg NoiseReduction (applyNoiseReduction_cmd cfg filtP enhP) None,
                         Ffmpeg VocalEnhancement (enhanceVocals_cmd cfg enhP cleanP) None]
                      @ finished_events cleanP mp3P mp3r prober cl))"
      "is_cleanup opts [rawP, filtP, enhP] cl"
proof -
  obtain d st1 where d: "downloadAudio e url rawP (w, tr) = (d, st1)"
    by (cases "downloadAudio e url rawP (w, tr)")
  from d show thesis
  proof (cases rule: downloadAudio_cases)
    case (download_failed w1 err dl)
    with run d have "out = (Inr (Failed ''Failed to download audio from YouTube''
                     (Some (js_or (message err) ''Failed to download audio from YouTube'')) jobId None),
              (w1, tr @ dl))"
      by (simp add: from_download_def Let_def step_failed_def)
    from this download_failed(2) show thesis by (rule that(1))
  next
    case (downloaded w1 info)
    define results1 where "results1 =
      \<lparr>res_jobId = jobId, res_videoId = videoId, steps = [(''download'', download_ok rawP info)],
       files = [(''raw'', rawP)], res_metadata = Some (source_metadata_of info),
       res_audioMetadata = None\<rparr>"
    from run d downloaded have "from_extract e cfg opts jobId videoId rawP filtP enhP cleanP mp3P
        results1 (w1, tr @ download_ok_events url rawP) = out"
      by (simp add: from_download_def Let_def download_ok_def results1_def)
    then show thesis
    proof (cases rule: from_extract_cases)
      case (extract_failed w' msg)
      show thesis
        by (rule that(2) [OF extract_failed [unfolded append_assoc]])
           (simp_all add: results1_def)
    next
      case (denoise_failed w' msg)
      show thesis
        by (rule that(3) [OF denoise_failed [unfolded append_assoc]])
           (simp_all add: results1_def)
    next
      case (enhance_failed w' msg)
      show thesis
        by (rule that(4) [OF enhance_failed [unfolded append_assoc]])
           (simp_all add: results1_def)
    next
      case (finished w' mp3r prober cl)
      from finished(1) mp3P have "out = (Inr (Succeeded jobId videoId (Some (source_metadata_of info))
                     (case prober of Inl msg \<Rightarrow> None | Inr m \<Rightarrow> Some (audio_metadata_of m))
                     cleanP (case mp3r of None \<Rightarrow> Some mp3P | Some msg \<Rightarrow> None)
                     ''Audio extracted and cleaned successfully''),
              (w', tr @ download_ok_events url rawP
                      @ [Ffmpeg ExtractRaw (extractRawAudio_cmd cfg rawP filtP) None,
                         Ffmpeg NoiseReduction (applyNoiseReduction_cmd cfg filtP enhP) None,
                         Ffmpeg VocalEnhancement (enhanceVocals_cmd cfg enhP cleanP) None]
                      @ finished_events cleanP mp3P mp3r prober cl))"
        by (cases mp3r; cases prober)
           (simp_all add: finished_result_def results1_def js_or_null_def)
      from this finished(2) show thesis by (rule that(5))
    qed
  qed
qed

lemma job_cases:
  assumes run: "extractAndCleanAudio e cfg videoUrl opts (w, []) = (res, w', tr)"
    and jid: "jobId = fst (uuidv4 e w)"
    and ts: "ts = fst (date_now e (snd (uuidv4 e w)))"
    and paths: "rawP = temp_file cfg videoUrl ts ''_raw.wav''"
      "filtP = temp_file cfg videoUrl ts ''_filtered.wav''"
      "enhP = temp_file cfg videoUrl ts ''_enhanced.wav''"
      "cleanP = output_file cfg videoUrl ts ''_clean_voice.wav''"
      "mp3P = output_file cfg videoUrl ts ''_clean_voice.mp3''"
  obtains (invalid)
      "\<not> isValidYouTubeUrl videoUrl"
      "res = Failed ''Invalid YouTube URL'' None jobId None"
      "tr = []"
      "w' = snd (date_now e (snd (uuidv4 e w)))"
  | (setup_failed) err where
      "isValidYouTubeUrl videoUrl"
      "res = Failed ''Unexpected error during audio extraction'' (Some (message err)) jobId None"
      "tr = [Mkdir (tempDir cfg) (Some err)] \<or>
       tr = [Mkdir (tempDir cfg) None, Mkdir (outputDir cfg) (Some err)]"
  | (download_failed) err dl where
      "isValidYouTubeUrl videoUrl"
      "res = Failed ''Failed to download audio from YouTube''
               (Some (js_or (message err) ''Failed to download audio from YouTube'')) jobId None"
      "tr = setup_events cfg @ dl"
      "dl \<in> set (download_failed_events videoUrl rawP err)"
  | (extract_failed) info msg rs where
      "isValidYouTubeUrl videoUrl"
      "res = Failed ''Failed to extract raw audio'' (Some msg) jobId (Some rs)"
      "steps rs = [(''download'', download_ok rawP info), (''extract'', step_failed msg)]"
      "files rs = [(''raw'', rawP)]"
      "tr = setup_events cfg @ download_ok_events videoUrl rawP
              @ [Ffmpeg ExtractRaw (extractRawAudio_cmd cfg rawP filtP) (Some msg)]"
  | (denoise_failed) info msg rs where
      "isValidYouTubeUrl videoUrl"
      "res = Failed ''Failed to apply noise reduction'' (Some msg) jobId (Some rs)"
      "steps rs = [(''download'', download_ok rawP info), (''extract'', step_ok filtP),
                   (''noiseReduction'', step_failed msg)]"
      "files rs = [(''raw'', rawP), (''extracted'', filtP)]"
      "tr = setup_events cfg @ download_ok_events videoUrl rawP
              @ [Ffmpeg ExtractRaw (extractRawAudio_cmd cfg rawP filtP) None,
                 Ffmpeg NoiseReduction (applyNoiseReduction_cmd cfg filtP enhP) (Some msg)]"
  | (enhance_failed) info msg rs where
      "isValidYouTubeUrl videoUrl"
      "res = Failed ''Failed to enhance vocals'' (Some msg) jobId (Some rs)"
      "steps rs = [(''download'', download_ok rawP info), (''extract'', step_ok filtP),
                   (''noiseReduction'', step_ok enhP), (''vocalEnhancement'', step_failed msg)]"
      "files rs = [(''raw'', rawP), (''extracted'', filtP), (''noiseReduced'', enhP)]"
      "tr = setup_events cfg @ download_ok_events videoUrl rawP
              @ [Ffmpeg ExtractRaw (extractRawAudio_cmd cfg rawP filtP) None,
                 Ffmpeg NoiseReduction (applyNoiseReduction_cmd cfg filtP enhP) None,
                 Ffmpeg VocalEnhancement (enhanceVocals_cmd cfg enhP cleanP) (Some msg)]"
  | (finished) info mp3r prober cl where
      "isValidYouTubeUrl videoUrl"
      "res = Succeeded jobId (extractVideoId videoUrl) (Some (source_metadata_of info))
               (case prober of Inl msg \<Rightarrow> None | Inr m \<Rightarrow> Some (audio_metadata_of m))
               cleanP (case mp3r of None \<Rightarrow> Some mp3P | Some msg \<Rightarrow> None)
               ''Audio extracted and cleaned successfully''"
      "tr = setup_events cfg @ download_ok_events videoUrl rawP
              @ [Ffmpeg ExtractRaw (extractRawAudio_cmd cfg rawP filtP) None,
                 Ffmpeg NoiseReduction (applyNoiseReduction_cmd cfg filtP enhP) None,
                 Ffmpeg VocalEnhancement (enhanceVocals_cmd cfg enhP cleanP) None]
              @ finished_events cleanP mp3P mp3r prober cl"
      "is_cleanup opts [rawP, filtP, enhP] cl"
proof -
  define w2 where "w2 = snd (date_now e (snd (uuidv4 e w)))"
  obtain x st' where x: "extractAndCleanAudio_try e cfg videoUrl opts jobId ts (w2, []) = (x, st')"
    by (cases "extractAndCleanAudio_try e cfg videoUrl opts jobId ts (w2, [])")
  have top: "(res, w', tr) =
      (case x of Inr r \<Rightarrow> (r, st')
       | Inl err \<Rightarrow> (Failed ''Unexpected error during audio extraction'' (Some (message err))
                        jobId None, st'))"
    using run x
    by (cases x) (simp_all add: extractAndCleanAudio_def jid ts w2_def split_beta)
  show thesis
  proof (cases "isValidYouTubeUrl videoUrl")
    case False
    with x have "x = Inr (Failed ''Invalid YouTube URL'' None jobId None)" "st' = (w2, [])"
      by (simp_all add: extractAndCleanAudio_try_def)
    with top have "res = Failed ''Invalid YouTube URL'' None jobId None" "tr = []" "w' = w2"
      by simp_all
    with False show thesis unfolding w2_def by (rule invalid)
  next
    case True
    note valid = this
    obtain r1 w3 where m1: "fs_mkdir e (tempDir cfg) w2 = (r1, w3)"
      by (cases "fs_mkdir e (tempDir cfg) w2")
    obtain r2 w4 where m2: "fs_mkdir e (outputDir cfg) w3 = (r2, w4)"
      by (cases "fs_mkdir e (outputDir cfg) w3")
    show thesis
    proof (cases r1)
      case (Some err)
      with x valid m1 have "x = Inl err" "st' = (w3, [Mkdir (tempDir cfg) (Some err)])"
        by (simp_all add: try_phases Let_def call_mkdir_def)
      with top have "res = Failed ''Unexpected error during audio extraction'' (Some (message err))
          jobId None" "tr = [Mkdir (tempDir cfg) (Some err)]"
        by simp_all
      with valid show thesis by (intro setup_failed [of err]) simp_all
    next
      case None
      note r1 = this
      show thesis
      proof (cases r2)
        case (Some err)
        with x valid m1 m2 r1 have "x = Inl err"
          "st' = (w4, [Mkdir (tempDir cfg) None, Mkdir (outputDir cfg) (Some err)])"
          by (simp_all add: try_phases Let_def call_mkdir_def)
        with top have "res = Failed ''Unexpected error during audio extraction'' (Some (message err))
            jobId None" "tr = [Mkdir (tempDir cfg) None, Mkdir (outputDir cfg) (Some err)]"
          by simp_all
        with valid show thesis by (intro setup_failed [of err]) simp_all
      next
        case None
        with x valid m1 m2 r1 have fd: "from_download e cfg videoUrl opts jobId (extractVideoId videoUrl)
             rawP filtP enhP cleanP mp3P
             \<lparr>res_jobId = jobId, res_videoId = extractVideoId videoUrl, steps = [], files = [],
              res_metadata = None, res_audioMetadata = None\<rparr> (w4, setup_events cfg) = (x, st')"
          by (simp add: try_phases Let_def call_mkdir_def paths temp_file_def output_file_def
                job_base_def setup_events_def)
        have ne: "mp3P \<noteq> []" by (simp add: paths output_file_def path_join_def)
        from fd ne show thesis
        proof (cases rule: from_download_cases)
          case (download_failed w'' err dl)
          with top have "res = Failed ''Failed to download audio from YouTube''
               (Some (js_or (message err) ''Failed to download audio from YouTube'')) jobId None"
            "tr = setup_events cfg @ dl"
            by simp_all
          with valid show thesis using download_failed(2) by (intro that(3)) 
        next
          case (extract_failed w'' info msg rs)
          with top have "res = Failed ''Failed to extract raw audio'' (Some msg) jobId (Some rs)"
            "tr = setup_events cfg @ download_ok_events videoUrl rawP
              @ [Ffmpeg ExtractRaw (extractRawAudio_cmd cfg rawP filtP) (Some msg)]"
            by simp_all
          with valid show thesis using extract_failed(2,3) by (intro that(4))
        next
          case (denoise_failed w'' info msg rs)
          with top have "res = Failed ''Failed to apply noise reduction'' (Some msg) jobId (Some rs)"
            "tr = setup_events cfg @ download_ok_events videoUrl rawP
              @ [Ffmpeg ExtractRaw (extractRawAudio_cmd cfg rawP filtP) None,
                 Ffmpeg NoiseReduction (applyNoiseReduction_cmd cfg filtP enhP) (Some msg)]"
            by simp_all
          with valid show thesis using denoise_failed(2,3) by (intro that(5))
        next
          case (enhance_failed w'' info msg rs)
          with top have "res = Failed ''Failed to enhance vocals'' (Some msg) jobId (Some rs)"
            "tr = setup_events cfg @ download_ok_events videoUrl rawP
              @ [Ffmpeg ExtractRaw (extractRawAudio_cmd cfg rawP filtP) None,
                 Ffmpeg NoiseReduction (applyNoiseReduction_cmd cfg filtP enhP) None,
                 Ffmpeg VocalEnhancement (enhanceVocals_cmd cfg enhP cleanP) (Some msg)]"
            by simp_all
          with valid show thesis using enhance_failed(2,3) by (intro that(6))
        next
          case (finished w'' info mp3r prober cl)
          with top have "res = Succeeded jobId (extractVideoId videoUrl) (Some (source_metadata_of info))
               (case prober of Inl msg \<Rightarrow> None | Inr m \<Rightarrow> Some (audio_metadata_of m))
               cleanP (case mp3r of None \<Rightarrow> Some mp3P | Some msg \<Rightarrow> None)
               ''Audio extracted and cleaned successfully''"
            "tr = setup_events cfg @ download_ok_events videoUrl rawP
              @ [Ffmpeg ExtractRaw (extractRawAudio_cmd cfg rawP filtP) None,
                 Ffmpeg NoiseReduction (applyNoiseReduction_cmd cfg filtP enhP) None,
                 Ffmpeg VocalEnhancement (enhanceVocals_cmd cfg enhP cleanP) None]
              @ finished_events cleanP mp3P mp3r prober cl"
            by simp_all
          with valid show thesis using finished(2) by (intro that(7))
        qed
      qed
    qed
  qed
qed


section \<open>Facts about the recorded calls\<close>

lemma first_engine_failure_append:
  "first_engine_failure (a @ b) =
     (case first_engine_failure a of Some f \<Rightarrow> Some f | None \<Rightarrow> first_engine_failure b)"
  by (induction a) (auto split: option.splits)

lemma stage_runs_append: "stage_runs (a @ b) = stage_runs a @ stage_runs b"
  by (simp add: stage_runs_def map_filter_def)

lemma stage_runs_Cons: "stage_runs (ev # tr) = (case stage_io ev of None \<Rightarrow> stage_runs tr | Some x \<Rightarrow> x # stage_runs tr)"
  by (simp add: stage_runs_def map_filter_def split: option.splits)

lemma stage_runs_Nil: "stage_runs [] = []"
  by (simp add: stage_runs_def map_filter_def)

lemma invoked_stages_append: "invoked_stages (a @ b) = invoked_stages a \<union> invoked_stages b"
  by (simp add: invoked_stages_def map_filter_def)

lemma invoked_stages_Cons:
  "invoked_stages (ev # tr) = (case invoked_stage ev of None \<Rightarrow> invoked_stages tr | Some s \<Rightarrow> insert s (invoked_stages tr))"
  by (simp add: invoked_stages_def map_filter_def split: option.splits)

lemma invoked_stages_Nil: "invoked_stages [] = {}"
  by (simp add: invoked_stages_def map_filter_def)

lemma unlinked_append: "unlinked (a @ b) = unlinked a @ unlinked b"
  by (induction a rule: unlinked.induct) simp_all

lemma cleanup_events_facts:
  "first_engine_failure (cleanup_events xs) = None"
  "stage_runs (cleanup_events xs) = []"
  "invoked_stages (cleanup_events xs) = {}"
  "unlinked (cleanup_events xs) = map fst xs"
  "Ffprobe p r \<notin> set (cleanup_events xs)"
  by (induction xs rule: cleanup_events.induct)
     (simp_all add: stage_runs_Cons stage_runs_Nil invoked_stages_Cons invoked_stages_Nil)

lemma cleanup_events_warn:
  "Unlink p (Some err) \<in> set (cleanup_events xs) \<Longrightarrow>
   ConsoleWarn (''Could not delete '' @ p @ '':'') (message err) \<in> set (cleanup_events xs)"
  by (induction xs rule: cleanup_events.induct) auto

lemma is_cleanup_facts:
  assumes "is_cleanup opts ps cl"
  shows "first_engine_failure cl = None" "stage_runs cl = []" "invoked_stages cl = {}"
    "unlinked cl = (if cleanupTemp opts = Some False then [] else ps)"
    "Ffprobe p r \<notin> set cl"
  using assms
  by (auto simp: is_cleanup_def cleanup_events_facts stage_runs_Nil invoked_stages_Nil
        split: if_splits)

lemma is_cleanup_warn:
  assumes "is_cleanup opts ps cl" and "Unlink q (Some err) \<in> set cl"
  shows "ConsoleWarn (''Could not delete '' @ q @ '':'') (message err) \<in> set cl"
proof (cases "cleanupTemp opts = Some False")
  case True
  with assms show ?thesis by (simp add: is_cleanup_def)
next
  case False
  with assms(1) obtain rs where "cl = cleanup_events (zip ps rs)"
    by (auto simp: is_cleanup_def)
  with assms(2) show ?thesis by (simp only: cleanup_events_warn)
qed

lemmas job_run_cases =
  job_cases [OF _ refl refl refl refl refl refl refl, consumes 1,
    case_names invalid setup_failed download_failed extract_failed denoise_failed
      enhance_failed finished]

lemmas trace_simps = setup_events_def download_ok_events_def download_failed_events_def
  finished_events_def first_engine_failure_append stage_runs_append stage_runs_Cons stage_runs_Nil
  invoked_stages_append invoked_stages_Cons invoked_stages_Nil unlinked_append
  audio_flags_def info_flags_def


section \<open>Evaluating the simulated environment\<close>

lemmas rx_defs =
  isValidYouTubeUrl_def rx_test_anchored_def valid_pattern1_def valid_pattern2_def
  rx_scheme_www_def strip_prefix_def word_or_dash_def is_word_char_def any_char_def
  not_amp_q_slash_def extractVideoId_def id_pattern1_def id_pattern2_def

lemma sim_url_valid: "isValidYouTubeUrl sim_url"
  by (simp add: rx_defs sim_url_def)

lemma sim_url_id: "extractVideoId sim_url = Some ''4wtgz5KLwOU''"
  by (simp add: rx_defs sim_url_def)

lemma watch_url_valid: "isValidYouTubeUrl watch_url_v_second"
  by (simp add: rx_defs watch_url_v_second_def)

lemma watch_url_id: "extractVideoId watch_url_v_second = None"
  by (simp add: rx_defs watch_url_v_second_def)

lemma other_site_invalid: "\<not> isValidYouTubeUrl other_site_url"
  by (simp add: rx_defs other_site_url_def)

lemma sim_sel:
  "uuidv4 (sim_engines plan) w = (''job-1'', w)"
  "date_now (sim_engines plan) w = (1234, w)"
  "fs_mkdir (sim_engines plan) p w = (None, w)"
  "fs_unlink (sim_engines plan) p w =
     (if p \<in> set w \<and> p \<notin> set (undeletable plan) then (None, removeAll p w)
      else (Some (JsError ''EPERM: operation not permitted''), w))"
  "youtubedl (sim_engines plan) url flags w =
     (if failing_download plan then (Inl (JsError ''ERROR: Video unavailable''), w)
      else (Inr sim_info,
            (case ytdl_output flags of
               Some out \<Rightarrow> if extractAudio flags then w @ [out] else w
             | None \<Rightarrow> w)))"
  "ffmpeg_run (sim_engines plan) cmd w =
     (if cmd_output cmd \<in> set (failing_outputs plan) then (Some ''ffmpeg exited with code 1'', w)
      else (None, w @ [cmd_output cmd]))"
  "ffprobe (sim_engines plan) p w =
     (if failing_probe plan then (Inl ''ffprobe exited with code 1'', w) else (Inr sim_probe, w))"
  by (simp_all add: sim_engines_def)

lemma string_of_1234: "string_of_nat 1234 = ''1234''"
  by (simp add: string_of_nat.simps digit_char_def)

lemma sim_plans:
  "failing_download no_faults = False" "failing_outputs no_faults = []"
  "failing_probe no_faults = False" "undeletable no_faults = []"
  "failing_download download_fault = True"
  "failing_download extract_fault = False"
  "failing_outputs extract_fault = [''/srv/temp/4wtgz5KLwOU_1234_filtered.wav'']"
  "failing_probe extract_fault = False" "undeletable extract_fault = []"
  "failing_download mp3_fault = False"
  "failing_outputs mp3_fault = [''/srv/output/4wtgz5KLwOU_1234_clean_voice.mp3'']"
  "failing_probe mp3_fault = False" "undeletable mp3_fault = []"
  "failing_download probe_fault = False" "failing_outputs probe_fault = []"
  "failing_probe probe_fault = True" "undeletable probe_fault = []"
  "failing_download unlink_fault = False" "failing_outputs unlink_fault = []"
  "failing_probe unlink_fault = False"
  "undeletable unlink_fault = [''/srv/temp/4wtgz5KLwOU_1234_filtered.wav'']"
  by (simp_all add: no_faults_def download_fault_def extract_fault_def mp3_fault_def
        probe_fault_def unlink_fault_def)

lemmas sim_eval =
  sim_run_def extractAndCleanAudio_def try_phases from_download_def from_extract_def
  from_denoise_def from_enhance_def from_convert_def finalize_job_def downloadAudio_def
  downloadAudio_try_def run_command_def extractRawAudio_def applyNoiseReduction_def
  enhanceVocals_def convertFormat_def getAudioMetadata_def call_mkdir_def call_unlink_def
  call_youtubedl_def call_ffmpeg_def call_ffprobe_def console_def sim_sel sim_plans Let_def
  audio_flags_def info_flags_def sim_url_valid sim_url_id watch_url_valid watch_url_id
  string_of_1234 sim_config_def path_join_def template_of_id_def js_or_null_def js_or_def

lemma sim_run_pair: "extractAndCleanAudio (sim_engines plan) sim_config videoUrl opts ([], []) =
    (fst (sim_run plan videoUrl opts), fst (snd (sim_run plan videoUrl opts)),
     snd (snd (sim_run plan videoUrl opts)))"
  by (simp add: sim_run_def)


section \<open>Simulated jobs, evaluated\<close>

lemmas sim_names =
  sim_raw_def sim_filtered_def sim_enhanced_def sim_clean_def sim_mp3_def null_raw_def
  null_filtered_def null_enhanced_def null_clean_def null_mp3_def

lemmas sim_shapes =
  sim_names stages_ok_events_def setup_events_def download_ok_events_def finished_events_def
  sim_success_def download_ok_def step_failed_def step_ok_def source_metadata_of_def
  probe_error_of_def

lemma sim_run_ok:
  "sim_run no_faults sim_url \<lparr>cleanupTemp = None\<rparr> =
     (sim_success (Some ''4wtgz5KLwOU'') (Some (audio_metadata_of sim_probe)) sim_clean (Some sim_mp3),
      [sim_clean, sim_mp3],
      stages_ok_events sim_config sim_url sim_raw sim_filtered sim_enhanced sim_clean
        @ finished_events sim_clean sim_mp3 None (Inr sim_probe)
            (cleanup_events [(sim_raw, None), (sim_filtered, None), (sim_enhanced, None)]))"
  by (simp add: sim_eval sim_shapes audio_metadata_of_def)

lemma sim_run_keep:
  "sim_run no_faults sim_url \<lparr>cleanupTemp = Some False\<rparr> =
     (sim_success (Some ''4wtgz5KLwOU'') (Some (audio_metadata_of sim_probe)) sim_clean (Some sim_mp3),
      [sim_raw, sim_filtered, sim_enhanced, sim_clean, sim_mp3],
      stages_ok_events sim_config sim_url sim_raw sim_filtered sim_enhanced sim_clean
        @ finished_events sim_clean sim_mp3 None (Inr sim_probe) [])"
  by (simp add: sim_eval sim_shapes audio_metadata_of_def)

lemma sim_run_extract_fault:
  "sim_run extract_fault sim_url opts =
     (Failed ''Failed to extract raw audio'' (Some ''ffmpeg exited with code 1'') ''job-1''
        (Some \<lparr>res_jobId = ''job-1'', res_videoId = Some ''4wtgz5KLwOU'',
               steps = [(''download'', download_ok sim_raw sim_info),
                        (''extract'', step_failed ''ffmpeg exited with code 1'')],
               files = [(''raw'', sim_raw)], res_metadata = Some (source_metadata_of sim_info),
               res_audioMetadata = None\<rparr>),
      [sim_raw],
      setup_events sim_config @ download_ok_events sim_url sim_raw
        @ [Ffmpeg ExtractRaw (extractRawAudio_cmd sim_config sim_raw sim_filtered)
             (Some ''ffmpeg exited with code 1'')])"
  by (simp add: sim_eval sim_shapes)


lemma sim_run_probe_fault:
  "sim_run probe_fault sim_url \<lparr>cleanupTemp = None\<rparr> =
     (sim_success (Some ''4wtgz5KLwOU'') None sim_clean (Some sim_mp3),
      [sim_clean, sim_mp3],
      stages_ok_events sim_config sim_url sim_raw sim_filtered sim_enhanced sim_clean
        @ finished_events sim_clean sim_mp3 None (Inl ''ffprobe exited with code 1'')
            (cleanup_events [(sim_raw, None), (sim_filtered, None), (sim_enhanced, None)]))"
  by (simp add: sim_eval sim_shapes)

lemma sim_run_unlink_fault:
  "sim_run unlink_fault sim_url \<lparr>cleanupTemp = None\<rparr> =
     (sim_success (Some ''4wtgz5KLwOU'') (Some (audio_metadata_of sim_probe)) sim_clean (Some sim_mp3),
      [sim_filtered, sim_clean, sim_mp3],
      stages_ok_events sim_config sim_url sim_raw sim_filtered sim_enhanced sim_clean
        @ finished_events sim_clean sim_mp3 None (Inr sim_probe)
            (cleanup_events [(sim_raw, None),
                             (sim_filtered, Some (JsError ''EPERM: operation not permitted'')),
                             (sim_enhanced, None)]))"
  by (simp add: sim_eval sim_shapes audio_metadata_of_def)

lemma sim_run_null:
  "sim_run no_faults watch_url_v_second \<lparr>cleanupTemp = None\<rparr> =
     (sim_success None (Some (audio_metadata_of sim_probe)) null_clean (Some null_mp3),
      [null_clean, null_mp3],
      stages_ok_events sim_config watch_url_v_second null_raw null_filtered null_enhanced null_clean
        @ finished_events null_clean null_mp3 None (Inr sim_probe)
            (cleanup_events [(null_raw, None), (null_filtered, None), (null_enhanced, None)]))"
  by (simp add: sim_eval sim_shapes audio_metadata_of_def)


section \<open>The first failing stage\<close>





section \<open>Cleanup of the intermediate files\<close>

lemma suffix_distinct:
  "a @ ''_raw.wav'' \<noteq> b @ ''_clean_voice.wav''" "a @ ''_raw.wav'' \<noteq> b @ ''_clean_voice.mp3''"
  "a @ ''_filtered.wav'' \<noteq> b @ ''_clean_voice.wav''" "a @ ''_filtered.wav'' \<noteq> b @ ''_clean_voice.mp3''"
  "a @ ''_enhanced.wav'' \<noteq> b @ ''_clean_voice.wav''" "a @ ''_enhanced.wav'' \<noteq> b @ ''_clean_voice.mp3''"
proof -
  have r: "\<And>x y :: string. rev x \<noteq> rev y \<Longrightarrow> x \<noteq> y" by auto
  show "a @ ''_raw.wav'' \<noteq> b @ ''_clean_voice.wav''" by (rule r) simp
  show "a @ ''_raw.wav'' \<noteq> b @ ''_clean_voice.mp3''" by (rule r) simp
  show "a @ ''_filtered.wav'' \<noteq> b @ ''_clean_voice.wav''" by (rule r) simp
  show "a @ ''_filtered.wav'' \<noteq> b @ ''_clean_voice.mp3''" by (rule r) simp
  show "a @ ''_enhanced.wav'' \<noteq> b @ ''_clean_voice.wav''" by (rule r) simp
  show "a @ ''_enhanced.wav'' \<noteq> b @ ''_clean_voice.mp3''" by (rule r) simp
qed

lemma temp_file_split: "temp_file cfg u ts s = (tempDir cfg @ ''/'' @ job_base u ts) @ s"
  by (simp add: temp_file_def path_join_def)

lemma output_file_split: "output_file cfg u ts s = (outputDir cfg @ ''/'' @ job_base u ts) @ s"
  by (simp add: output_file_def path_join_def)

lemma temp_output_distinct:
  "temp_file cfg u ts ''_raw.wav'' \<noteq> output_file cfg' u' ts' ''_clean_voice.wav''"
  "temp_file cfg u ts ''_raw.wav'' \<noteq> output_file cfg' u' ts' ''_clean_voice.mp3''"
  "temp_file cfg u ts ''_filtered.wav'' \<noteq> output_file cfg' u' ts' ''_clean_voice.wav''"
  "temp_file cfg u ts ''_filtered.wav'' \<noteq> output_file cfg' u' ts' ''_clean_voice.mp3''"
  "temp_file cfg u ts ''_enhanced.wav'' \<noteq> output_file cfg' u' ts' ''_clean_voice.wav''"
  "temp_file cfg u ts ''_enhanced.wav'' \<noteq> output_file cfg' u' ts' ''_clean_voice.mp3''"
  unfolding temp_file_split output_file_split by (rule suffix_distinct)+

text \<open>
  Where \<^verbatim>\<open>unlink\<close> is called. The cleanup step is written once in
  \<^verbatim>\<open>extractAndCleanAudio\<close>, after the metadata probe and under the test
  \<^verbatim>\<open>options.cleanupTemp !== false\<close>; the four failure returns and the catch block lie before
  it, and the function has no \<^verbatim>\<open>finally\<close>. So, in every run:
  \<^item> a job that returns \<^verbatim>\<open>success: true\<close> with \<^verbatim>\<open>cleanupTemp\<close> not \<^verbatim>\<open>false\<close> calls
    \<^verbatim>\<open>unlink\<close> exactly once on each of its three intermediate files (raw, filtered,
    enhanced), in that order, and on nothing else;
  \<^item> a job that returns \<^verbatim>\<open>success: true\<close> with \<^verbatim>\<open>cleanupTemp: false\<close> calls
    \<^verbatim>\<open>unlink\<close> on nothing;
  \<^item> a job that returns \<^verbatim>\<open>success: false\<close> calls \<^verbatim>\<open>unlink\<close> on nothing either, whatever
    the option says: the intermediate files it has written stay in the temporary directory;
  \<^item> the final WAV and MP3 are never unlinked;
  \<^item> a failed \<^verbatim>\<open>unlink\<close> is written to the console as a warning and leaves the verdict
    \<^verbatim>\<open>success: true\<close>.
\<close>

lemma unlink_calls_of_a_job:
  assumes "extractAndCleanAudio e cfg videoUrl opts (w, []) = (res, w', tr)"
      and "ts = fst (date_now e (snd (uuidv4 e w)))"
  shows "unlinked tr =
           (if job_success res \<and> cleanupTemp opts \<noteq> Some False
            then [temp_file cfg videoUrl ts ''_raw.wav'', temp_file cfg videoUrl ts ''_filtered.wav'',
                  temp_file cfg videoUrl ts ''_enhanced.wav'']
            else [])
       \<and> output_file cfg videoUrl ts ''_clean_voice.wav'' \<notin> set (unlinked tr)
       \<and> output_file cfg videoUrl ts ''_clean_voice.mp3'' \<notin> set (unlinked tr)
       \<and> (\<forall>p err. Unlink p (Some err) \<in> set tr \<longrightarrow>
             job_success res \<and> ConsoleWarn (''Could not delete '' @ p @ '':'') (message err) \<in> set tr)"
proof -
  have u: "unlinked tr =
           (if job_success res \<and> cleanupTemp opts \<noteq> Some False
            then [temp_file cfg videoUrl ts ''_raw.wav'', temp_file cfg videoUrl ts ''_filtered.wav'',
                  temp_file cfg videoUrl ts ''_enhanced.wav'']
            else [])"
    using assms(1)
  proof (cases rule: job_run_cases)
    case (finished info mp3r prober cl)
    with is_cleanup_facts(4) [OF finished(4)] show ?thesis
      by (simp add: trace_simps assms(2))
  qed (auto simp: trace_simps)
  have d: "output_file cfg videoUrl ts ''_clean_voice.wav'' \<notin> set (unlinked tr)
       \<and> output_file cfg videoUrl ts ''_clean_voice.mp3'' \<notin> set (unlinked tr)"
    unfolding u using temp_output_distinct [of cfg videoUrl ts cfg videoUrl ts]
    by (simp add: eq_commute [of "output_file cfg videoUrl ts s" for s])
  have l: "\<forall>p err. Unlink p (Some err) \<in> set tr \<longrightarrow>
             job_success res \<and> ConsoleWarn (''Could not delete '' @ p @ '':'') (message err) \<in> set tr"
    using assms(1)
  proof (cases rule: job_run_cases)
    case (finished info mp3r prober cl)
    show ?thesis
    proof (intro allI impI)
      fix p err
      assume "Unlink p (Some err) \<in> set tr"
      with finished(3) have "Unlink p (Some err) \<in> set cl" by (auto simp: trace_simps)
      from is_cleanup_warn [OF finished(4) this] finished(2,3) 
      show "job_success res \<and> ConsoleWarn (''Could not delete '' @ p @ '':'') (message err) \<in> set tr"
        by (simp add: trace_simps)
    qed
  qed (auto simp: trace_simps)
  from u d l show ?thesis by blast
qed

text \<open>
  Two successful jobs of the simulated environment: one in which the filtered file cannot
  be deleted, and one with \<^verbatim>\<open>cleanupTemp: false\<close>.
\<close>

lemma unlink_calls_of_a_job_example:
  "unlinked (snd (snd (sim_run unlink_fault sim_url \<lparr>cleanupTemp = None\<rparr>))) =
     [sim_raw, sim_filtered, sim_enhanced]
   \<and> Unlink sim_filtered (Some (JsError ''EPERM: operation not permitted''))
        \<in> set (snd (snd (sim_run unlink_fault sim_url \<lparr>cleanupTemp = None\<rparr>)))
   \<and> job_success (fst (sim_run unlink_fault sim_url \<lparr>cleanupTemp = None\<rparr>))
   \<and> ConsoleWarn (''Could not delete '' @ sim_filtered @ '':'') ''EPERM: operation not permitted''
        \<in> set (snd (snd (sim_run unlink_fault sim_url \<lparr>cleanupTemp = None\<rparr>)))
   \<and> fst (snd (sim_run unlink_fault sim_url \<lparr>cleanupTemp = None\<rparr>)) =
        [sim_filtered, sim_clean, sim_mp3]
   \<and> unlinked (snd (snd (sim_run no_faults sim_url \<lparr>cleanupTemp = Some False\<rparr>))) = []"
proof -
  have p: "temp_file sim_config sim_url 1234 ''_raw.wav'' = sim_raw"
    "temp_file sim_config sim_url 1234 ''_filtered.wav'' = sim_filtered"
    "temp_file sim_config sim_url 1234 ''_enhanced.wav'' = sim_enhanced"
    by (simp_all add: temp_file_def job_base_def sim_url_id string_of_1234 sim_config_def
          path_join_def template_of_id_def sim_names)
  have h: "Unlink sim_filtered (Some (JsError ''EPERM: operation not permitted''))
        \<in> set (snd (snd (sim_run unlink_fault sim_url \<lparr>cleanupTemp = None\<rparr>)))"
    by (simp add: sim_run_unlink_fault finished_events_def)
  have f: "fst (snd (sim_run unlink_fault sim_url \<lparr>cleanupTemp = None\<rparr>)) =
        [sim_filtered, sim_clean, sim_mp3]"
    by (simp add: sim_run_unlink_fault)
  have t: "fst (date_now (sim_engines unlink_fault) (snd (uuidv4 (sim_engines unlink_fault) []))) = 1234"
    "fst (date_now (sim_engines no_faults) (snd (uuidv4 (sim_engines no_faults) []))) = 1234"
    by (simp_all add: sim_sel)
  have s: "job_success (fst (sim_run no_faults sim_url \<lparr>cleanupTemp = Some False\<rparr>))"
    by (simp add: sim_run_keep sim_success_def)
  note c1 = unlink_calls_of_a_job [OF sim_run_pair t(1) [symmetric],
         of sim_url "\<lparr>cleanupTemp = None\<rparr>"]
  note c2 = unlink_calls_of_a_job [OF sim_run_pair t(2) [symmetric],
         of sim_url "\<lparr>cleanupTemp = Some False\<rparr>"]
  from c1 have a: "\<forall>p err. Unlink p (Some err)
        \<in> set (snd (snd (sim_run unlink_fault sim_url \<lparr>cleanupTemp = None\<rparr>))) \<longrightarrow>
      job_success (fst (sim_run unlink_fault sim_url \<lparr>cleanupTemp = None\<rparr>))
      \<and> ConsoleWarn (''Could not delete '' @ p @ '':'') (message err)
        \<in> set (snd (snd (sim_run unlink_fault sim_url \<lparr>cleanupTemp = None\<rparr>)))"
    by (rule conjunct2 [THEN conjunct2, THEN conjunct2])
  from a h have j: "job_success (fst (sim_run unlink_fault sim_url \<lparr>cleanupTemp = None\<rparr>))
      \<and> ConsoleWarn (''Could not delete '' @ sim_filtered @ '':'')
          (message (JsError ''EPERM: operation not permitted''))
        \<in> set (snd (snd (sim_run unlink_fault sim_url \<lparr>cleanupTemp = None\<rparr>)))"
    by blast
  from c1 j have u1: "unlinked (snd (snd (sim_run unlink_fault sim_url \<lparr>cleanupTemp = None\<rparr>))) =
     [sim_raw, sim_filtered, sim_enhanced]"
    by (simp add: p)
  from c2 s have u2: "unlinked (snd (snd (sim_run no_faults sim_url \<lparr>cleanupTemp = Some False\<rparr>))) = []"
    by simp
  from u1 u2 j h f show ?thesis by simp
qed

text \<open>
  Claim C2. With the cleanup option enabled (\<^verbatim>\<open>cleanupTemp\<close> not \<^verbatim>\<open>false\<close>) the
  intermediate files of a job are to be removed when the job ends, whether it succeeded
  or failed. The code does not do so for a job that fails. The job below runs on
  \<^verbatim>\<open>https://youtu.be/4wtgz5KLwOU?si=Sa0j2gSn7aAmy01v\<close> with \<^verbatim>\<open>cleanupTemp: true\<close>, on an
  empty disk; the download succeeds and writes the raw file, then the ffmpeg run of the
  raw extraction reports an error. The job returns \<^verbatim>\<open>success: false\<close>, its raw
  intermediate file is still on disk afterwards, and \<^verbatim>\<open>unlink\<close> was never called.
\<close>

theorem failed_job_keeps_intermediates:
  "\<not> job_success (fst (sim_run extract_fault sim_url \<lparr>cleanupTemp = Some True\<rparr>))
   \<and> sim_raw \<in> set (fst (snd (sim_run extract_fault sim_url \<lparr>cleanupTemp = Some True\<rparr>)))
   \<and> temp_file sim_config sim_url 1234 ''_raw.wav'' = sim_raw
   \<and> unlinked (snd (snd (sim_run extract_fault sim_url \<lparr>cleanupTemp = Some True\<rparr>))) = []"
proof -
  have p: "temp_file sim_config sim_url 1234 ''_raw.wav'' = sim_raw"
    by (simp add: temp_file_def job_base_def sim_url_id string_of_1234 sim_config_def
          path_join_def template_of_id_def sim_names)
  have r: "\<not> job_success (fst (sim_run extract_fault sim_url \<lparr>cleanupTemp = Some True\<rparr>))
   \<and> sim_raw \<in> set (fst (snd (sim_run extract_fault sim_url \<lparr>cleanupTemp = Some True\<rparr>)))
   \<and> unlinked (snd (snd (sim_run extract_fault sim_url \<lparr>cleanupTemp = Some True\<rparr>))) = []"
    by (simp add: sim_run_extract_fault trace_simps)
  from p r show ?thesis by blast
qed


section \<open>Rejected references\<close>

text \<open>
  Claim C3. For a reference that \<open>isValidYouTubeUrl\<close> rejects, both
  \<^verbatim>\<open>extractAndCleanAudio\<close> and \<^verbatim>\<open>quickExtract\<close> return the \<^verbatim>\<open>success: false\<close> result
  "Invalid YouTube URL" at once: no call of any collaborator is recorded (no stage, no
  directory creation), and the world is the one left by \<^verbatim>\<open>uuidv4()\<close> and \<^verbatim>\<open>Date.now()\<close>.
\<close>

theorem invalid_url_no_effects:
  assumes "\<not> isValidYouTubeUrl videoUrl"
  shows "extractAndCleanAudio e cfg videoUrl opts (w, tr) =
           (Failed ''Invalid YouTube URL'' None (fst (uuidv4 e w)) None,
            (snd (date_now e (snd (uuidv4 e w))), tr))
       \<and> quickExtract e cfg videoUrl (w, tr) =
           (Failed ''Invalid YouTube URL'' None (fst (uuidv4 e w)) None,
            (snd (date_now e (snd (uuidv4 e w))), tr))"
  using assms
  by (simp add: extractAndCleanAudio_def extractAndCleanAudio_try_def quickExtract_def
        quickExtract_try_def split_beta)

text \<open>
  A URL of another site, in the simulated environment.
\<close>

theorem invalid_url_no_effects_witness:
  "\<not> isValidYouTubeUrl other_site_url
   \<and> extractAndCleanAudio (sim_engines no_faults) sim_config other_site_url
        \<lparr>cleanupTemp = None\<rparr> ([], []) =
       (Failed ''Invalid YouTube URL'' None ''job-1'' None, ([], []))
   \<and> quickExtract (sim_engines no_faults) sim_config other_site_url ([], []) =
       (Failed ''Invalid YouTube URL'' None ''job-1'' None, ([], []))"
  using invalid_url_no_effects [OF other_site_invalid, of "sim_engines no_faults" sim_config
      "\<lparr>cleanupTemp = None\<rparr>" "[]" "[]"] other_site_invalid
  by (simp add: sim_sel)


section \<open>The filter chains\<close>

lemma digit_char_digit: "d < 10 \<Longrightarrow> digit_char d \<in> set ''0123456789''"
  unfolding digit_char_def by (rule nth_mem) simp

lemma string_of_nat_digits: "set (string_of_nat n) \<subseteq> set ''0123456789''"
proof (induction n rule: string_of_nat.induct)
  case (1 n)
  show ?case
  proof (cases "n < 10")
    case True
    with digit_char_digit [of n] show ?thesis by (subst string_of_nat.simps) simp
  next
    case False
    have "digit_char (n mod 10) \<in> set ''0123456789''" by (rule digit_char_digit) simp
    with False 1 show ?thesis by (subst string_of_nat.simps) simp
  qed
qed

lemma string_of_int_chars:
  "CHR '','' \<notin> set (string_of_int i)" "CHR ''='' \<notin> set (string_of_int i)"
  using string_of_nat_digits [of "nat i"] string_of_nat_digits [of "nat (- i)"]
  by (auto simp: string_of_int_def)

lemma split_on_single: "c \<notin> set a \<Longrightarrow> split_on c a = [a]"
  by (induction a) auto

lemma split_on_append: "c \<notin> set a \<Longrightarrow> split_on c (a @ c # rest) = a # split_on c rest"
  by (induction a) auto

lemma split_on_join:
  "xs \<noteq> [] \<Longrightarrow> list_all (\<lambda>x. c \<notin> set x) xs \<Longrightarrow> split_on c (join_with [c] xs) = xs"
proof (induction "[c]" xs rule: join_with.induct)
  case 1
  then show ?case by simp
next
  case (2 x)
  then show ?case by (simp add: split_on_single)
next
  case (3 x y ys)
  then show ?case by (simp add: split_on_append)
qed

lemma parts_comma_free:
  "list_all (\<lambda>x. CHR '','' \<notin> set x) (noiseReduction_parts cfg)"
  "list_all (\<lambda>x. CHR '','' \<notin> set x) (vocal_parts cfg)"
  by (simp_all add: noiseReduction_parts_def vocal_parts_def string_of_int_chars compand_filter_def)

text \<open>
  Claim C4. For every configuration, the filter chain that \<^verbatim>\<open>applyNoiseReduction\<close> hands
  to the engine reads, in order: high-pass, low-pass, spectral (FFT) denoiser, dynamics
  compander; and the chain of \<^verbatim>\<open>enhanceVocals\<close> reads: high-pass, low-pass, spectral
  denoiser, clarity-band equalizer, dynamics compander, loudness normalization. The two
  configured cut-off frequencies are numbers, so their text holds no comma and cannot split
  or reorder the chain.
\<close>

theorem filter_chains_in_order:
  "filter_chain (noiseReduction_filters cfg) =
     [Some HighPass, Some LowPass, Some SpectralDenoiser, Some DynamicsCompander]
   \<and> filter_chain (vocalFilters cfg) =
     [Some HighPass, Some LowPass, Some SpectralDenoiser, Some ClarityEqualizer,
      Some DynamicsCompander, Some LoudnessNormalization]
   \<and> audioFilters (applyNoiseReduction_cmd cfg inputPath outputPath) = Some (noiseReduction_filters cfg)
   \<and> audioFilters (enhanceVocals_cmd cfg inputPath outputPath) = Some (vocalFilters cfg)"
proof -
  have n: "split_on CHR '','' (noiseReduction_filters cfg) = noiseReduction_parts cfg"
    unfolding noiseReduction_filters_def
    by (rule split_on_join [OF _ parts_comma_free(1)]) (simp add: noiseReduction_parts_def)
  have v: "split_on CHR '','' (vocalFilters cfg) = vocal_parts cfg"
    unfolding vocalFilters_def
    by (rule split_on_join [OF _ parts_comma_free(2)]) (simp add: vocal_parts_def)
  have a: "filter_chain (noiseReduction_filters cfg) =
     [Some HighPass, Some LowPass, Some SpectralDenoiser, Some DynamicsCompander]"
    unfolding filter_chain_def n
    by (simp add: noiseReduction_parts_def filter_name_def compand_filter_def filter_kind_of_def)
  have b: "filter_chain (vocalFilters cfg) =
     [Some HighPass, Some LowPass, Some SpectralDenoiser, Some ClarityEqualizer,
      Some DynamicsCompander, Some LoudnessNormalization]"
    unfolding filter_chain_def v
    by (simp add: vocal_parts_def filter_name_def compand_filter_def filter_kind_of_def)
  have c: "audioFilters (applyNoiseReduction_cmd cfg inputPath outputPath) = Some (noiseReduction_filters cfg)"
    "audioFilters (enhanceVocals_cmd cfg inputPath outputPath) = Some (vocalFilters cfg)"
    by (simp_all add: applyNoiseReduction_cmd_def enhanceVocals_cmd_def)
  from a b c show ?thesis by simp
qed

text \<open>
  The chains for the configured 80 Hz and 8000 Hz cut-offs.
\<close>

theorem filter_chains_in_order_witness:
  "noiseReduction_filters sim_config =
     ''highpass=f=80,lowpass=f=8000,afftdn=nf=-25,'' @ compand_filter
   \<and> filter_chain (noiseReduction_filters sim_config) =
     [Some HighPass, Some LowPass, Some SpectralDenoiser, Some DynamicsCompander]
   \<and> filter_chain (vocalFilters sim_config) =
     [Some HighPass, Some LowPass, Some SpectralDenoiser, Some ClarityEqualizer,
      Some DynamicsCompander, Some LoudnessNormalization]"
proof -
  have s: "noiseReduction_filters sim_config =
     ''highpass=f=80,lowpass=f=8000,afftdn=nf=-25,'' @ compand_filter"
    by (simp add: noiseReduction_filters_def noiseReduction_parts_def sim_config_def
          default_audio_def string_of_int_def string_of_nat.simps digit_char_def)
  from filter_chains_in_order [of sim_config] s show ?thesis by blast
qed


section \<open>The chain of stage inputs and outputs\<close>

text \<open>
  Claim C5. In every run the stages that ran are an initial segment of download, raw
  extraction, noise reduction, vocal enhancement, format conversion, in this order, and each
  of them reads exactly the file the stage before it wrote. A job that returns
  \<^verbatim>\<open>success: true\<close> ran all five, the first one on the given reference.
\<close>

theorem stage_outputs_chain:
  assumes "extractAndCleanAudio e cfg videoUrl opts (w, []) = (res, w', tr)"
  shows "chained (stage_runs tr)
       \<and> map fst (stage_runs tr) =
           take (length (stage_runs tr))
             [Download, ExtractRaw, NoiseReduction, VocalEnhancement, FormatConversion]
       \<and> (job_success res \<longrightarrow>
             length (stage_runs tr) = 5 \<and> fst (snd (hd (stage_runs tr))) = videoUrl)"
  using assms
proof (cases rule: job_run_cases)
  case (finished info mp3r prober cl)
  with is_cleanup_facts(2) [OF finished(4)] show ?thesis by (simp add: trace_simps)
qed (auto simp: trace_simps)

text \<open>
  The five stage runs of a simulated job.
\<close>

theorem stage_outputs_chain_witness:
  "job_success (fst (sim_run no_faults sim_url \<lparr>cleanupTemp = None\<rparr>))
   \<and> stage_runs (snd (snd (sim_run no_faults sim_url \<lparr>cleanupTemp = None\<rparr>))) =
       [(Download, sim_url, sim_raw), (ExtractRaw, sim_raw, sim_filtered),
        (NoiseReduction, sim_filtered, sim_enhanced), (VocalEnhancement, sim_enhanced, sim_clean),
        (FormatConversion, sim_clean, sim_mp3)]
   \<and> chained (stage_runs (snd (snd (sim_run no_faults sim_url \<lparr>cleanupTemp = None\<rparr>))))"
proof -
  have h: "stage_runs (snd (snd (sim_run no_faults sim_url \<lparr>cleanupTemp = None\<rparr>))) =
       [(Download, sim_url, sim_raw), (ExtractRaw, sim_raw, sim_filtered),
        (NoiseReduction, sim_filtered, sim_enhanced), (VocalEnhancement, sim_enhanced, sim_clean),
        (FormatConversion, sim_clean, sim_mp3)]"
    by (simp add: sim_run_ok trace_simps stages_ok_events_def cleanup_events_facts)
  have s: "job_success (fst (sim_run no_faults sim_url \<lparr>cleanupTemp = None\<rparr>))"
    by (simp add: sim_run_ok sim_success_def)
  from stage_outputs_chain [OF sim_run_pair, of no_faults sim_url "\<lparr>cleanupTemp = None\<rparr>"] h s
  show ?thesis by simp
qed


section \<open>The URL check against the two accepted forms\<close>

lemma star_rests_set: "set (star_rests c s) = {t. \<exists>u. list_all c u \<and> s = u @ t}"
proof (induction s)
  case Nil
  show ?case by auto
next
  case (Cons x xs)
  show ?case
  proof (cases "c x")
    case True
    have "{t. \<exists>u. list_all c u \<and> x # xs = u @ t} =
          insert (x # xs) {t. \<exists>u. list_all c u \<and> xs = u @ t}"
    proof (intro set_eqI iffI)
      fix t assume "t \<in> {t. \<exists>u. list_all c u \<and> x # xs = u @ t}"
      then obtain u where u: "list_all c u" "x # xs = u @ t" by blast
      show "t \<in> insert (x # xs) {t. \<exists>u. list_all c u \<and> xs = u @ t}"
      proof (cases u)
        case Nil
        with u show ?thesis by simp
      next
        case (Cons y ys)
        with u have "list_all c ys" "xs = ys @ t" by simp_all
        then show ?thesis by blast
      qed
    next
      fix t assume "t \<in> insert (x # xs) {t. \<exists>u. list_all c u \<and> xs = u @ t}"
      then consider "t = x # xs" | u where "list_all c u" "xs = u @ t" by blast
      then show "t \<in> {t. \<exists>u. list_all c u \<and> x # xs = u @ t}"
      proof cases
        case 1
        then have "list_all c [] \<and> x # xs = [] @ t" by simp
        then show ?thesis by blast
      next
        case 2
        with True have "list_all c (x # u) \<and> x # xs = (x # u) @ t" by simp
        then show ?thesis by blast
      qed
    qed
    with True Cons show ?thesis by simp
  next
    case False
    have "{t. \<exists>u. list_all c u \<and> x # xs = u @ t} = {x # xs}"
    proof (intro set_eqI iffI)
      fix t assume "t \<in> {t. \<exists>u. list_all c u \<and> x # xs = u @ t}"
      then obtain u where u: "list_all c u" "x # xs = u @ t" by blast
      with False have "u = []" by (cases u) auto
      with u show "t \<in> {x # xs}" by simp
    next
      fix t assume "t \<in> {x # xs}"
      then have "list_all c [] \<and> x # xs = [] @ t" by simp
      then show "t \<in> {t. \<exists>u. list_all c u \<and> x # xs = u @ t}" by blast
    qed
    with False show ?thesis by simp
  qed
qed

lemma strip_prefix_iff: "strip_prefix l s = Some t \<longleftrightarrow> s = l @ t"
  by (auto simp: strip_prefix_def) (metis append_take_drop_id)

lemma strip_prefix_None: "strip_prefix l s = None \<longleftrightarrow> (\<forall>t. s \<noteq> l @ t)"
proof
  assume "strip_prefix l s = None"
  then have n: "take (length l) s \<noteq> l" by (simp add: strip_prefix_def split: if_splits)
  show "\<forall>t. s \<noteq> l @ t"
  proof (intro allI notI)
    fix t
    assume "s = l @ t"
    then have "take (length l) s = l" by simp
    with n show False ..
  qed
next
  assume a: "\<forall>t. s \<noteq> l @ t"
  have "take (length l) s \<noteq> l"
  proof
    assume "take (length l) s = l"
    then have "s = l @ drop (length l) s" by (metis append_take_drop_id)
    with a show False by blast
  qed
  then show "strip_prefix l s = None" by (simp add: strip_prefix_def)
qed

lemma snd_seq:
  "snd ` set (concat (map (\<lambda>(c1, s1). map (\<lambda>(c2, s2). (f c1 c2, s2)) (g s1)) xs)) =
     (\<Union>s1 \<in> snd ` set xs. snd ` set (g s1))"
  by (induction xs) (auto simp: image_Un split_beta image_image)

lemma rx_match_rests: "snd ` set (rx_match r s) = {t. \<exists>u\<in>lang r. s = u @ t}"
proof (induction r arbitrary: s)
  case (Lit l)
  show ?case
  proof (cases "strip_prefix l s")
    case None
    then have "\<forall>t. s \<noteq> l @ t" by (simp add: strip_prefix_None)
    then have "{t. \<exists>u\<in>lang (Lit l). s = u @ t} = {}" by simp
    moreover from None have "rx_match (Lit l) s = []" by simp
    ultimately show ?thesis by (simp only: list.set image_empty)
  next
    case (Some t)
    then have "s = l @ t" by (simp add: strip_prefix_iff)
    with Some show ?thesis by simp
  qed
next
  case (Opt r)
  then show ?case by (auto simp: image_Un)
next
  case (Alt a b)
  then show ?case by (auto simp: image_Un)
next
  case (Seq a b)
  have "snd ` set (rx_match (Seq a b) s) = (\<Union>s1 \<in> snd ` set (rx_match a s). snd ` set (rx_match b s1))"
    by (simp only: rx_match.simps snd_seq)
  also have "\<dots> = (\<Union>s1 \<in> {t. \<exists>u\<in>lang a. s = u @ t}. {t. \<exists>v\<in>lang b. s1 = v @ t})"
    by (simp add: Seq)
  also have "\<dots> = {t. \<exists>u\<in>lang (Seq a b). s = u @ t}"
  proof (intro set_eqI iffI)
    fix t
    assume "t \<in> (\<Union>s1 \<in> {t. \<exists>u\<in>lang a. s = u @ t}. {t. \<exists>v\<in>lang b. s1 = v @ t})"
    then obtain s1 u v where "u \<in> lang a" "s = u @ s1" "v \<in> lang b" "s1 = v @ t" by blast
    then have "u @ v \<in> lang (Seq a b)" "s = (u @ v) @ t" by auto
    then show "t \<in> {t. \<exists>u\<in>lang (Seq a b). s = u @ t}" by blast
  next
    fix t
    assume "t \<in> {t. \<exists>u\<in>lang (Seq a b). s = u @ t}"
    then obtain u v where uv: "u \<in> lang a" "v \<in> lang b" "s = (u @ v) @ t" by auto
    then have "v @ t \<in> {t. \<exists>u\<in>lang a. s = u @ t}" by auto
    moreover from uv have "t \<in> {t'. \<exists>v'\<in>lang b. v @ t = v' @ t'}" by auto
    ultimately show "t \<in> (\<Union>s1 \<in> {t. \<exists>u\<in>lang a. s = u @ t}. {t. \<exists>v\<in>lang b. s1 = v @ t})"
      by blast
  qed
  finally show ?case .
next
  case (Plus c)
  show ?case
  proof (cases s)
    case Nil
    then show ?thesis by auto
  next
    case (Cons x xs)
    show ?thesis
    proof (cases "c x")
      case True
      have "{t. \<exists>u. (u \<noteq> [] \<and> list_all c u) \<and> x # xs = u @ t} = {t. \<exists>u. list_all c u \<and> xs = u @ t}"
      proof (intro set_eqI iffI)
        fix t assume "t \<in> {t. \<exists>u. (u \<noteq> [] \<and> list_all c u) \<and> x # xs = u @ t}"
        then obtain u where u: "u \<noteq> []" "list_all c u" "x # xs = u @ t" by blast
        then obtain ys where "u = x # ys" by (cases u) auto
        with u have "list_all c ys \<and> xs = ys @ t" by simp
        then show "t \<in> {t. \<exists>u. list_all c u \<and> xs = u @ t}" by blast
      next
        fix t assume "t \<in> {t. \<exists>u. list_all c u \<and> xs = u @ t}"
        then obtain u where "list_all c u" "xs = u @ t" by blast
        with True have "(x # u \<noteq> [] \<and> list_all c (x # u)) \<and> x # xs = (x # u) @ t" by simp
        then show "t \<in> {t. \<exists>u. (u \<noteq> [] \<and> list_all c u) \<and> x # xs = u @ t}" by blast
      qed
      with True Cons show ?thesis by (simp add: image_image star_rests_set)
    next
      case False
      have "\<And>u t. u \<noteq> [] \<Longrightarrow> list_all c u \<Longrightarrow> x # xs = u @ t \<Longrightarrow> False"
        using False by (case_tac u) auto
      with False Cons show ?thesis by auto
    qed
  qed
next
  case (Star c)
  show ?case by (simp add: image_image star_rests_set)
next
  case (Cap r)
  have "snd ` set (rx_match (Cap r) s) = snd ` set (rx_match r s)"
    by (force simp: image_iff split_beta)
  with Cap show ?case by simp
qed

lemma rx_test_iff: "rx_test_anchored r s \<longleftrightarrow> (\<exists>u t. u \<in> lang r \<and> s = u @ t)"
proof -
  have "rx_test_anchored r s \<longleftrightarrow> snd ` set (rx_match r s) \<noteq> {}"
    by (simp add: rx_test_anchored_def)
  then show ?thesis unfolding rx_match_rests by blast
qed

lemma lang_Seq_image: "lang (Seq a b) = (\<Union>u\<in>lang a. (\<lambda>v. u @ v) ` lang b)"
  by auto

lemma lang_scheme_www: "lang rx_scheme_www = set url_heads"
  by (auto simp: rx_scheme_www_def url_heads_def lang_Seq_image simp del: lang.simps(4))

lemma lang_Seq_iff: "w \<in> lang (Seq a b) \<longleftrightarrow> (\<exists>u v. u \<in> lang a \<and> v \<in> lang b \<and> w = u @ v)"
  by auto

lemma valid_pattern1_iff:
  "rx_test_anchored valid_pattern1 url \<longleftrightarrow>
     (\<exists>h ident rest. h \<in> set url_heads \<and> ident \<noteq> [] \<and> list_all word_or_dash ident
        \<and> (url = h @ ''youtube.com/watch?v='' @ ident @ rest \<or> url = h @ ''youtu.be/'' @ ident @ rest))"
  (is "?L \<longleftrightarrow> ?R")
proof
  assume ?L
  then obtain u t where u: "u \<in> lang valid_pattern1" "url = u @ t" by (auto simp: rx_test_iff)
  from u(1) obtain h m i where f: "h \<in> set url_heads" "m = ''youtube.com/watch?v='' \<or> m = ''youtu.be/''"
    "i \<noteq> []" "list_all word_or_dash i" "u = h @ m @ i"
    unfolding valid_pattern1_def lang_Seq_iff lang_scheme_www by auto
  from f(2,5) u(2) have "url = h @ ''youtube.com/watch?v='' @ i @ t \<or> url = h @ ''youtu.be/'' @ i @ t"
    by auto
  with f(1,3,4) show ?R by blast
next
  assume ?R
  then obtain h ident rest where r: "h \<in> set url_heads" "ident \<noteq> []" "list_all word_or_dash ident"
    "url = h @ ''youtube.com/watch?v='' @ ident @ rest \<or> url = h @ ''youtu.be/'' @ ident @ rest"
    by blast
  from r(4) obtain m where m: "m = ''youtube.com/watch?v='' \<or> m = ''youtu.be/''"
    "url = (h @ m @ ident) @ rest" by auto
  have "m \<in> lang (Alt (Lit ''youtube.com/watch?v='') (Lit ''youtu.be/''))" using m(1) by auto
  moreover have "ident \<in> lang (Plus word_or_dash)" using r(2,3) by simp
  moreover have "h \<in> lang rx_scheme_www" using r(1) by (simp only: lang_scheme_www)
  ultimately have "h @ m @ ident \<in> lang valid_pattern1"
    unfolding valid_pattern1_def lang_Seq_iff by blast
  with m(2) show ?L unfolding rx_test_iff by blast
qed

lemma valid_pattern2_iff:
  "rx_test_anchored valid_pattern2 url \<longleftrightarrow> watch_page_form url"
  (is "?L \<longleftrightarrow> ?R")
proof
  assume ?L
  then obtain u t where u: "u \<in> lang valid_pattern2" "url = u @ t" by (auto simp: rx_test_iff)
  from u(1) obtain h ps i where f: "h \<in> set url_heads" "list_all any_char ps"
    "i \<noteq> []" "list_all word_or_dash i" "u = h @ ''youtube.com/watch?'' @ ps @ ''v='' @ i"
    unfolding valid_pattern2_def lang_Seq_iff lang_scheme_www by auto
  from f(5) u(2) have "url = h @ ''youtube.com/watch?'' @ ps @ ''v='' @ i @ t" by simp
  with f(1,2,3,4) show ?R unfolding watch_page_form_def by blast
next
  assume ?R
  then obtain h ps ident rest where r: "h \<in> set url_heads" "list_all any_char ps" "ident \<noteq> []"
    "list_all word_or_dash ident" "url = (h @ ''youtube.com/watch?'' @ ps @ ''v='' @ ident) @ rest"
    unfolding watch_page_form_def by auto
  have "ident \<in> lang (Plus word_or_dash)" using r(3,4) by simp
  moreover have "ps \<in> lang (Star any_char)" using r(2) by simp
  moreover have "h \<in> lang rx_scheme_www" using r(1) by (simp only: lang_scheme_www)
  moreover have "''v='' \<in> lang (Lit ''v='')" "''youtube.com/watch?'' \<in> lang (Lit ''youtube.com/watch?'')"
    by simp_all
  ultimately have "h @ ''youtube.com/watch?'' @ ps @ ''v='' @ ident \<in> lang valid_pattern2"
    unfolding valid_pattern2_def lang_Seq_iff by blast
  with r(5) show ?L unfolding rx_test_iff by blast
qed

text \<open>
  Claim C6. \<open>isValidYouTubeUrl\<close> returns true exactly for the strings of the two accepted
  forms: every string of the watch-page form or of the short-link form is accepted, and
  every string of neither form is rejected.
\<close>

theorem valid_iff_accepted_form:
  "isValidYouTubeUrl url = (watch_page_form url \<or> short_link_form url)"
proof -
  have "rx_test_anchored valid_pattern1 url \<longrightarrow> watch_page_form url \<or> short_link_form url"
  proof
    assume "rx_test_anchored valid_pattern1 url"
    then obtain h ident rest where r: "h \<in> set url_heads" "ident \<noteq> []" "list_all word_or_dash ident"
      "url = h @ ''youtube.com/watch?v='' @ ident @ rest \<or> url = h @ ''youtu.be/'' @ ident @ rest"
      unfolding valid_pattern1_iff by blast
    from r(4) show "watch_page_form url \<or> short_link_form url"
    proof
      assume "url = h @ ''youtube.com/watch?v='' @ ident @ rest"
      then have "url = h @ ''youtube.com/watch?'' @ [] @ ''v='' @ ident @ rest" by simp
      moreover have "list_all any_char []" by simp
      ultimately have "watch_page_form url" unfolding watch_page_form_def using r(1,2,3) by blast
      then show ?thesis ..
    next
      assume "url = h @ ''youtu.be/'' @ ident @ rest"
      with r(1,2,3) have "short_link_form url" unfolding short_link_form_def by blast
      then show ?thesis ..
    qed
  qed
  moreover have "short_link_form url \<longrightarrow> rx_test_anchored valid_pattern1 url"
    unfolding valid_pattern1_iff short_link_form_def by blast
  ultimately show ?thesis
    unfolding isValidYouTubeUrl_def by (auto simp: valid_pattern2_iff)
qed

text \<open>
  One URL of each form, and one of neither.
\<close>

theorem valid_iff_accepted_form_witness:
  "isValidYouTubeUrl sim_url \<and> short_link_form sim_url
   \<and> isValidYouTubeUrl watch_url_v_second \<and> watch_page_form watch_url_v_second
   \<and> \<not> isValidYouTubeUrl other_site_url \<and> \<not> watch_page_form other_site_url
   \<and> \<not> short_link_form other_site_url"
proof -
  have "short_link_form sim_url"
    unfolding short_link_form_def
    by (rule exI [of _ "''https://''"], rule exI [of _ "''4wtgz5KLwOU''"],
        rule exI [of _ "''?si=Sa0j2gSn7aAmy01v''"])
       (simp add: url_heads_def sim_url_def word_or_dash_def is_word_char_def)
  moreover have "watch_page_form watch_url_v_second"
    unfolding watch_page_form_def
    by (rule exI [of _ "''https://www.''"], rule exI [of _ "''t=10&''"], rule exI [of _ "''abc''"],
        rule exI [of _ "[]"])
       (simp add: url_heads_def watch_url_v_second_def word_or_dash_def is_word_char_def any_char_def)
  moreover note valid_iff_accepted_form [of sim_url] valid_iff_accepted_form [of watch_url_v_second]
    valid_iff_accepted_form [of other_site_url] other_site_invalid
  ultimately show ?thesis by blast
qed


section \<open>downloadAudio returns, whatever the engine does\<close>

text \<open>
  Claim C7. For every reference, destination and behaviour of the collaborators,
  \<^verbatim>\<open>downloadAudio\<close> returns a result and never throws. When all three calls succeed the
  result has \<^verbatim>\<open>success: true\<close>, the destination path and the source metadata. Otherwise
  one call failed, the result has \<^verbatim>\<open>success: false\<close>, and its error detail is the message
  of the failure, or the fixed text when that message is empty; it is never empty.
\<close>

theorem downloadAudio_never_throws:
  "\<exists>r w' evs. downloadAudio e videoUrl outputPath (w, tr) = (Inr r, (w', tr @ evs)) \<and>
     (if evs = download_ok_events videoUrl outputPath
      then success r \<and> filePath r = Some outputPath
           \<and> (\<exists>info. metadata r = Some (source_metadata_of info))
      else \<not> success r \<and> error r \<noteq> None \<and> error r \<noteq> Some []
           \<and> (\<exists>err. evs \<in> set (download_failed_events videoUrl outputPath err)
                  \<and> error r = Some (js_or (message err) ''Failed to download audio from YouTube'')))"
proof -
  obtain out where out: "downloadAudio e videoUrl outputPath (w, tr) = out" by simp
  then show ?thesis
  proof (cases rule: downloadAudio_cases)
    case (download_failed w' err dl)
    from download_failed(2) have "dl \<noteq> download_ok_events videoUrl outputPath"
      by (auto simp: download_failed_events_def download_ok_events_def)
    with download_failed out show ?thesis
      by (auto simp: step_failed_def js_or_def)
  next
    case (downloaded w' info)
    with out show ?thesis by (auto simp: download_ok_def)
  qed
qed

text \<open>
  A failing and a successful download in the simulated environment.
\<close>

theorem downloadAudio_never_throws_witness:
  "fst (downloadAudio (sim_engines download_fault) sim_url ''/srv/temp/a.wav'' ([], [])) =
     Inr (step_failed ''ERROR: Video unavailable'')
   \<and> fst (downloadAudio (sim_engines no_faults) sim_url ''/srv/temp/a.wav'' ([], [])) =
     Inr (download_ok ''/srv/temp/a.wav'' sim_info)"
  using downloadAudio_never_throws [of "sim_engines download_fault" sim_url "''/srv/temp/a.wav''" "[]" "[]"]
  by (simp add: sim_eval step_failed_def download_ok_def source_metadata_of_def)


section \<open>The file names of a job\<close>

text \<open>
  Claim C8. Let \<open>base\<close> be the source identifier as the template literal renders it,
  an underscore, and the timestamp taken once at the start of the job. The stages of every
  run write, in order, to \<^verbatim>\<open>base_raw.wav\<close>, \<^verbatim>\<open>base_filtered.wav\<close> and
  \<^verbatim>\<open>base_enhanced.wav\<close> in the temp directory, then to \<^verbatim>\<open>base_clean_voice.wav\<close> and
  \<^verbatim>\<open>base_clean_voice.mp3\<close> in the output directory. A job that returns
  \<^verbatim>\<open>success: true\<close> ran all five and reports these two deliverables (the MP3 as null when
  its conversion failed).
\<close>

theorem job_file_names:
  assumes "extractAndCleanAudio e cfg videoUrl opts (w, []) = (res, w', tr)"
      and "base = template_of_id (extractVideoId videoUrl) @ ''_''
                    @ string_of_nat (fst (date_now e (snd (uuidv4 e w))))"
  shows "map (snd \<circ> snd) (stage_runs tr) =
           take (length (stage_runs tr))
             [tempDir cfg @ ''/'' @ base @ ''_raw.wav'',
              tempDir cfg @ ''/'' @ base @ ''_filtered.wav'',
              tempDir cfg @ ''/'' @ base @ ''_enhanced.wav'',
              outputDir cfg @ ''/'' @ base @ ''_clean_voice.wav'',
              outputDir cfg @ ''/'' @ base @ ''_clean_voice.mp3'']
       \<and> (job_success res \<longrightarrow>
             length (stage_runs tr) = 5
             \<and> jr_videoId res = extractVideoId videoUrl
             \<and> jr_wav res = outputDir cfg @ ''/'' @ base @ ''_clean_voice.wav''
             \<and> (jr_mp3 res = Some (outputDir cfg @ ''/'' @ base @ ''_clean_voice.mp3'')
                  \<or> jr_mp3 res = None))"
  using assms(1)
proof (cases rule: job_run_cases)
  case (finished info mp3r prober cl)
  with is_cleanup_facts(2) [OF finished(4)] show ?thesis
    by (cases mp3r)
       (simp_all add: trace_simps temp_file_def output_file_def job_base_def path_join_def assms(2))
qed (auto simp: trace_simps temp_file_def output_file_def job_base_def path_join_def assms(2))

text \<open>
  The names of a simulated job: identifier \<^verbatim>\<open>4wtgz5KLwOU\<close>, timestamp 1234.
\<close>

theorem job_file_names_witness:
  "job_success (fst (sim_run no_faults sim_url \<lparr>cleanupTemp = None\<rparr>))
   \<and> map (snd \<circ> snd) (stage_runs (snd (snd (sim_run no_faults sim_url \<lparr>cleanupTemp = None\<rparr>)))) =
        [''/srv/temp/4wtgz5KLwOU_1234_raw.wav'', ''/srv/temp/4wtgz5KLwOU_1234_filtered.wav'',
         ''/srv/temp/4wtgz5KLwOU_1234_enhanced.wav'', ''/srv/output/4wtgz5KLwOU_1234_clean_voice.wav'',
         ''/srv/output/4wtgz5KLwOU_1234_clean_voice.mp3'']
   \<and> jr_wav (fst (sim_run no_faults sim_url \<lparr>cleanupTemp = None\<rparr>)) =
        ''/srv/output/4wtgz5KLwOU_1234_clean_voice.wav''
   \<and> jr_mp3 (fst (sim_run no_faults sim_url \<lparr>cleanupTemp = None\<rparr>)) =
        Some ''/srv/output/4wtgz5KLwOU_1234_clean_voice.mp3''"
proof -
  have b: "''4wtgz5KLwOU_1234'' = template_of_id (extractVideoId sim_url) @ ''_''
             @ string_of_nat (fst (date_now (sim_engines no_faults)
                                     (snd (uuidv4 (sim_engines no_faults) []))))"
    by (simp add: sim_url_id template_of_id_def sim_sel string_of_1234)
  have s: "job_success (fst (sim_run no_faults sim_url \<lparr>cleanupTemp = None\<rparr>))"
    by (simp add: sim_run_ok sim_success_def)
  have m: "jr_mp3 (fst (sim_run no_faults sim_url \<lparr>cleanupTemp = None\<rparr>)) =
        Some ''/srv/output/4wtgz5KLwOU_1234_clean_voice.mp3''"
    by (simp add: sim_run_ok sim_success_def sim_names)
  from job_file_names [OF sim_run_pair b, of "\<lparr>cleanupTemp = None\<rparr>"] s m
  show ?thesis by (simp add: sim_config_def)
qed


section \<open>A valid URL without an extractable identifier\<close>

text \<open>
  Claim C9. The URL \<^verbatim>\<open>https://www.youtube.com/watch?t=10&v=abc\<close> is accepted by
  \<open>isValidYouTubeUrl\<close> through the second pattern only, \<open>extractVideoId\<close> returns null for
  it, and every run on it goes past validation and names all its files with the literal
  \<^verbatim>\<open>null\<close> in place of the identifier.
\<close>

theorem watch_url_gets_null_id:
  assumes "extractAndCleanAudio e cfg watch_url_v_second opts (w, []) = (res, w', tr)"
      and "base = ''null_'' @ string_of_nat (fst (date_now e (snd (uuidv4 e w))))"
  shows "isValidYouTubeUrl watch_url_v_second
       \<and> \<not> rx_test_anchored valid_pattern1 watch_url_v_second
       \<and> rx_test_anchored valid_pattern2 watch_url_v_second
       \<and> extractVideoId watch_url_v_second = None
       \<and> tr \<noteq> []
       \<and> map (snd \<circ> snd) (stage_runs tr) =
           take (length (stage_runs tr))
             [tempDir cfg @ ''/'' @ base @ ''_raw.wav'',
              tempDir cfg @ ''/'' @ base @ ''_filtered.wav'',
              tempDir cfg @ ''/'' @ base @ ''_enhanced.wav'',
              outputDir cfg @ ''/'' @ base @ ''_clean_voice.wav'',
              outputDir cfg @ ''/'' @ base @ ''_clean_voice.mp3'']
       \<and> (job_success res \<longrightarrow>
             length (stage_runs tr) = 5
             \<and> jr_videoId res = None
             \<and> jr_wav res = outputDir cfg @ ''/'' @ base @ ''_clean_voice.wav'')"
proof -
  have v: "\<not> rx_test_anchored valid_pattern1 watch_url_v_second"
    "rx_test_anchored valid_pattern2 watch_url_v_second"
    by (simp_all add: rx_defs watch_url_v_second_def)
  have r: "tr \<noteq> []
       \<and> map (snd \<circ> snd) (stage_runs tr) =
           take (length (stage_runs tr))
             [tempDir cfg @ ''/'' @ base @ ''_raw.wav'',
              tempDir cfg @ ''/'' @ base @ ''_filtered.wav'',
              tempDir cfg @ ''/'' @ base @ ''_enhanced.wav'',
              outputDir cfg @ ''/'' @ base @ ''_clean_voice.wav'',
              outputDir cfg @ ''/'' @ base @ ''_clean_voice.mp3'']
       \<and> (job_success res \<longrightarrow>
             length (stage_runs tr) = 5
             \<and> jr_videoId res = None
             \<and> jr_wav res = outputDir cfg @ ''/'' @ base @ ''_clean_voice.wav'')"
    using assms(1)
  proof (cases rule: job_run_cases)
    case invalid
    with watch_url_valid show ?thesis by simp
  next
    case (finished info mp3r prober cl)
    with is_cleanup_facts(2) [OF finished(4)] show ?thesis
      by (simp add: trace_simps temp_file_def output_file_def job_base_def path_join_def assms(2)
            watch_url_id template_of_id_def)
  qed (auto simp: trace_simps temp_file_def output_file_def job_base_def path_join_def assms(2)
         watch_url_id template_of_id_def)
  from watch_url_valid watch_url_id v r show ?thesis by blast
qed

text \<open>
  A simulated job on that URL succeeds and delivers \<^verbatim>\<open>null_1234_clean_voice.wav\<close>.
\<close>

theorem watch_url_gets_null_id_witness:
  "job_success (fst (sim_run no_faults watch_url_v_second \<lparr>cleanupTemp = None\<rparr>))
   \<and> jr_videoId (fst (sim_run no_faults watch_url_v_second \<lparr>cleanupTemp = None\<rparr>)) = None
   \<and> jr_wav (fst (sim_run no_faults watch_url_v_second \<lparr>cleanupTemp = None\<rparr>)) =
        ''/srv/output/null_1234_clean_voice.wav''
   \<and> map (snd \<circ> snd)
        (stage_runs (snd (snd (sim_run no_faults watch_url_v_second \<lparr>cleanupTemp = None\<rparr>)))) =
        [''/srv/temp/null_1234_raw.wav'', ''/srv/temp/null_1234_filtered.wav'',
         ''/srv/temp/null_1234_enhanced.wav'', ''/srv/output/null_1234_clean_voice.wav'',
         ''/srv/output/null_1234_clean_voice.mp3'']"
proof -
  have b: "''null_1234'' = ''null_'' @ string_of_nat (fst (date_now (sim_engines no_faults)
                                     (snd (uuidv4 (sim_engines no_faults) []))))"
    by (simp add: sim_sel string_of_1234)
  have s: "job_success (fst (sim_run no_faults watch_url_v_second \<lparr>cleanupTemp = None\<rparr>))"
    by (simp add: sim_run_null sim_success_def)
  from watch_url_gets_null_id [OF sim_run_pair b, of "\<lparr>cleanupTemp = None\<rparr>"] s
  show ?thesis by (simp add: sim_config_def)
qed


section \<open>The metadata probe and the verdict of a job\<close>

text \<open>
  Claim C10. Whenever the final metadata probe of the clean WAV runs, the job returns
  \<^verbatim>\<open>success: true\<close>, whatever the probe reports; when the probe fails, the
  \<^verbatim>\<open>audioMetadata\<close> field of the result is absent, and when it succeeds the field is
  present. The probe runs only after download, extraction, noise reduction and vocal
  enhancement have succeeded, so a probe failure never changes the verdict.
\<close>

theorem probe_failure_keeps_success:
  assumes "extractAndCleanAudio e cfg videoUrl opts (w, []) = (res, w', tr)"
      and "Ffprobe p r \<in> set tr"
  shows "job_success res \<and> (r \<noteq> None \<longrightarrow> jr_audioMetadata res = None)
           \<and> (r = None \<longrightarrow> jr_audioMetadata res \<noteq> None)"
  using assms(1)
proof (cases rule: job_run_cases)
  case (finished info mp3r prober cl)
  from assms(2) finished(3) is_cleanup_facts(5) [OF finished(4)]
  have "r = probe_error_of prober"
    by (auto simp: trace_simps)
  with finished(2) show ?thesis
    by (cases prober) (simp_all add: probe_error_of_def)
qed (use assms(2) in \<open>auto simp: trace_simps\<close>)

theorem probe_failure_keeps_success_witness:
  "Ffprobe ''/srv/output/4wtgz5KLwOU_1234_clean_voice.wav'' (Some ''ffprobe exited with code 1'')
     \<in> set (snd (snd (sim_run probe_fault sim_url \<lparr>cleanupTemp = None\<rparr>)))
   \<and> job_success (fst (sim_run probe_fault sim_url \<lparr>cleanupTemp = None\<rparr>))
   \<and> jr_audioMetadata (fst (sim_run probe_fault sim_url \<lparr>cleanupTemp = None\<rparr>)) = None"
proof -
  have h: "Ffprobe ''/srv/output/4wtgz5KLwOU_1234_clean_voice.wav''
             (Some ''ffprobe exited with code 1'')
           \<in> set (snd (snd (sim_run probe_fault sim_url \<lparr>cleanupTemp = None\<rparr>)))"
    by (simp add: sim_run_probe_fault sim_shapes)
  from probe_failure_keeps_success [OF sim_run_pair h] h show ?thesis by simp
qed

end
